theory Spec2Isabelle
  imports Main
begin

section \<open>The Aliyun master provisioner of the virtualcluster controller\<close>

text \<open>
  A shallow embedding of
  \<^verbatim>\<open>incubator/virtualcluster/pkg/controller/virtualcluster/master_provisioner_aliyun.go\<close>.
  Go strings are byte sequences and are modelled as \<^typ>\<open>string\<close>. A Go function
  returning \<^verbatim>\<open>(T, error)\<close> returns a value of \<open>error + T\<close>; a function that
  talks to the outside takes the world and returns the world it leaves behind.
\<close>

subsection \<open>Data of the provisioner\<close>

definition DefaultVcManagerNs :: string where
  "DefaultVcManagerNs = ''vc-manager''"

definition AliyunAkSrt :: string where
  "AliyunAkSrt = ''aliyun-accesskey''"

definition AliyunAKIDName :: string where
  "AliyunAKIDName = ''accessKeyID''"

definition AliyunAKSecretName :: string where
  "AliyunAKSecretName = ''accessKeySecret''"

definition AliyunASKConfigMap :: string where
  "AliyunASKConfigMap = ''aliyun-ask-config''"

definition AliyunASKCfgMpRegionID :: string where
  "AliyunASKCfgMpRegionID = ''askRegionID''"

definition AliyunASKCfgMpZoneID :: string where
  "AliyunASKCfgMpZoneID = ''askZoneID''"

definition AliyunASKCfgMpVPCID :: string where
  "AliyunASKCfgMpVPCID = ''askVpcID''"

record ASKConfig =
  vpcID :: string
  regionID :: string
  zoneID :: string

type_synonym AliyunSDKErrCode = string

definition OprationNotSupported :: AliyunSDKErrCode where
  "OprationNotSupported = ''ErrorCheckAcl''"

definition ClusterNotFound :: AliyunSDKErrCode where
  "ClusterNotFound = ''ErrorClusterNotFound''"

definition ClusterNameAlreadyExist :: AliyunSDKErrCode where
  "ClusterNameAlreadyExist = ''ClusterNameAlreadyExist''"

record AliyunSDKErr =
  errorName :: string
  errorCode :: AliyunSDKErrCode
  errorMessage :: string

text \<open>
  The values of Go's \<^verbatim>\<open>error\<close> interface that reach this file, by origin:
  \<open>Transport\<close> is an error of the SDK client, \<open>JSONError\<close> one of
  \<^verbatim>\<open>json.Unmarshal\<close>, \<open>Msg\<close> one built by \<^verbatim>\<open>errors.New\<close> or
  \<^verbatim>\<open>fmt.Errorf\<close>, \<open>SDK\<close> a \<^verbatim>\<open>*AliyunSDKErr\<close>, \<open>AlreadyExists\<close> an
  error of the Kubernetes client for which \<^verbatim>\<open>apierrors.IsAlreadyExists\<close> holds and
  \<open>ApiError\<close> any other error of that client. \<open>Panic\<close> is a run-time panic
  (index or slice bounds out of range); nothing in the file recovers from one, so
  it travels to the caller like an error that no branch tolerates.
\<close>

datatype error =
    Transport string
  | JSONError string
  | Msg string
  | SDK AliyunSDKErr
  | AlreadyExists string
  | ApiError string
  | Panic

subsection \<open>Go strings and slices\<close>

text \<open>
  \<^verbatim>\<open>strings.Split(s, sep)\<close> for a non-empty separator: the pieces of \<open>s\<close>
  between the leftmost non-overlapping occurrences of \<open>sep\<close>; always at least one
  piece. \<open>acc\<close> is the piece read so far.
\<close>

function splitFrom :: "string \<Rightarrow> string \<Rightarrow> string \<Rightarrow> string list" where
  "splitFrom sep acc [] = [acc]"
| "splitFrom sep acc (c # cs) =
     (if sep \<noteq> [] \<and> take (length sep) (c # cs) = sep
      then acc # splitFrom sep [] (drop (length sep) (c # cs))
      else splitFrom sep (acc @ [c]) cs)"
  by pat_completeness auto
termination
  by (relation "measure (\<lambda>(sep, acc, s). length s)") auto

text \<open>
  With the empty separator Go splits after each UTF-8 sequence; on bytes that is one
  piece per character. The provisioner never splits on the empty string.
\<close>

definition Split :: "string \<Rightarrow> string \<Rightarrow> string list" where
  "Split s sep = (if sep = [] then map (\<lambda>c. [c]) s else splitFrom sep [] s)"

text \<open>\<^verbatim>\<open>xs[i]\<close>: panics when \<open>i\<close> is out of range.\<close>

definition index :: "'a list \<Rightarrow> nat \<Rightarrow> error + 'a" where
  "index xs i = (if i < length xs then Inr (xs ! i) else Inl Panic)"

text \<open>
  \<^verbatim>\<open>s[1 : len(s)-1]\<close>: panics when \<open>s\<close> has fewer than two bytes (the bounds are
  then out of range or inverted).
\<close>

definition stripEnds :: "string \<Rightarrow> error + string" where
  "stripEnds s = (if length s < 2 then Inl Panic else Inr (take (length s - 2) (drop 1 s)))"

subsection \<open>The error classifier\<close>

text \<open>
  \<^verbatim>\<open>isErrResponse\<close>. \<^verbatim>\<open>strutil.IsJSON\<close> belongs to a package whose source is
  not at hand; it is the parameter \<open>isJSON\<close>. The result is \<open>Inr None\<close> for Go's
  \<^verbatim>\<open>nil\<close>, \<open>Inr (Some e)\<close> for a pointer to \<open>e\<close>, and \<open>Inl Panic\<close> when an index
  or a slice is out of range.
\<close>

definition isErrResponse :: "(string \<Rightarrow> bool) \<Rightarrow> string \<Rightarrow> error + AliyunSDKErr option" where
  "isErrResponse isJSON responseBody =
     (if isJSON responseBody then Inr None
      else
        let errEntries = Split responseBody ''\<newline>'' in
        (case index errEntries 0 of Inl p \<Rightarrow> Inl p | Inr entry0 \<Rightarrow>
        (case index (Split entry0 '': '') 1 of Inl p \<Rightarrow> Inl p | Inr name \<Rightarrow>
        (case index errEntries 4 of Inl p \<Rightarrow> Inl p | Inr entry4 \<Rightarrow>
        (case index (Split entry4 '':'') 2 of Inl p \<Rightarrow> Inl p | Inr codeTok \<Rightarrow>
        (case stripEnds codeTok of Inl p \<Rightarrow> Inl p | Inr code \<Rightarrow>
        (case index (Split entry4 '':'') 4 of Inl p \<Rightarrow> Inl p | Inr messageTok \<Rightarrow>
        (case stripEnds messageTok of Inl p \<Rightarrow> Inl p | Inr message \<Rightarrow>
           Inr (Some \<lparr>errorName = name, errorCode = code,
                          errorMessage = message\<rparr>)))))))))"

text \<open>\<^verbatim>\<open>clusterNotFoundErr\<close>: the type assertion succeeds on \<open>SDK\<close> values only.\<close>

definition clusterNotFoundErr :: "error \<Rightarrow> bool" where
  "clusterNotFoundErr err =
     (case err of
        SDK ase \<Rightarrow> errorCode ase = ClusterNotFound \<or> errorCode ase = OprationNotSupported
      | _ \<Rightarrow> False)"

subsection \<open>The outside world\<close>

text \<open>
  A value that \<^verbatim>\<open>json.Unmarshal\<close> stores in an \<^verbatim>\<open>interface{}\<close>. The
  provisioner only asks whether such a value is a string.
\<close>

datatype json =
    JNull
  | JBool bool
  | JNumber string
  | JString string
  | JArray "json list"
  | JObject "(string \<times> json) list"

text \<open>The SDK client: what \<^verbatim>\<open>sdk.NewClientWithAccessKey\<close> was given.\<close>

record client =
  clientRegionID :: string
  clientKeyID :: string
  clientKeySecret :: string

text \<open>
  The fields of an SDK \<^verbatim>\<open>CommonRequest\<close> that the provisioner sets. The two Go
  maps are association lists, so that requests can be compared.
\<close>

record request =
  Method :: string
  Scheme :: string
  ReqDomain :: string
  Version :: string
  PathPattern :: string
  Headers :: "(string \<times> string) list"
  QueryParams :: "(string \<times> string) list"
  Content :: string

definition NewCommonRequest :: request where
  "NewCommonRequest =
     \<lparr>Method = '''', Scheme = '''', ReqDomain = '''', Version = '''', PathPattern = '''',
      Headers = [], QueryParams = [], Content = ''''\<rparr>"

text \<open>The Kubernetes objects read and created through the embedded client.\<close>

datatype kind = SecretKind | ConfigMapKind

datatype object =
    NamespaceObj string
  | SecretObj string string string

record Virtualcluster =
  Name :: string
  Namespace :: string
  UID :: string

text \<open>
  What the provisioner does to the outside, in order: a request to the backend
  (time of sending, client, request, time the call took, what came back), a read
  and a create through the Kubernetes client.
\<close>

datatype event =
    HttpCall nat client request nat "error + string"
  | KubeGet kind string string
  | KubeCreate object "error option"

text \<open>
  The world is the clock (in nanoseconds, the unit of \<^verbatim>\<open>time.Duration\<close>) and the
  events so far. Only a call to the backend takes time.
\<close>

record world =
  now :: nat
  trace :: "event list"

definition Second :: nat where
  "Second = 1000000000"

text \<open>
  Everything that is not code of this file is a parameter. The backend, the
  Kubernetes API and the pod's namespace file may answer differently as time goes
  by: they see the events so far (and the backend the clock). A failure of one of
  them is \<open>Inl\<close> of its message; the provisioner's functions below wrap it
  into the \<^typ>\<open>error\<close> of its origin.
  \<^item> \<open>IsJSON\<close> is \<^verbatim>\<open>strutil.IsJSON\<close>; the three \<open>Unmarshal\<close> fields are
    \<^verbatim>\<open>json.Unmarshal\<close> into a \<^verbatim>\<open>map[string]interface{}\<close>, a slice of such
    maps and a \<^verbatim>\<open>map[string]string\<close>.
  \<^item> \<open>GetPodNsFromInside\<close> is \<^verbatim>\<open>kubeutil.GetPodNsFromInside\<close>.
  \<^item> \<open>kubeGet\<close> and \<open>kubeCreate\<close> are the \<^verbatim>\<open>Get\<close> and \<^verbatim>\<open>Create\<close> of the
    embedded \<^verbatim>\<open>client.Client\<close>. A read answers with the \<^verbatim>\<open>Data\<close> of the object,
    or fails and then leaves the object it was given empty. A create that fails
    says whether \<^verbatim>\<open>apierrors.IsAlreadyExists\<close> holds of its error.
  \<^item> \<open>NewClientWithAccessKey\<close> is the SDK's constructor of that name.
  \<^item> \<open>backend\<close> is \<^verbatim>\<open>ProcessCommonRequest\<close>: the time the call takes and either
    a transport error or the content of the response.
  \<^item> \<open>tickFirst\<close> decides a \<^verbatim>\<open>select\<close> whose two timers fire at the same instant
    (Go picks one of the ready cases at random).
  \<^item> \<open>ToClusterKey\<close> is \<^verbatim>\<open>conversion.ToClusterKey\<close>, \<open>AdminSecretName\<close> is
    \<^verbatim>\<open>secret.AdminSecretName\<close>.
\<close>

datatype createFailure = Exists string | Refused string

record env =
  IsJSON :: "string \<Rightarrow> bool"
  UnmarshalObject :: "string \<Rightarrow> string + (string \<rightharpoonup> json)"
  UnmarshalObjectList :: "string \<Rightarrow> string + (string \<rightharpoonup> json) list"
  UnmarshalStringMap :: "string \<Rightarrow> string + (string \<rightharpoonup> string)"
  GetPodNsFromInside :: "event list \<Rightarrow> string + string"
  kubeGet :: "event list \<Rightarrow> kind \<Rightarrow> string \<Rightarrow> string \<Rightarrow> string + (string \<rightharpoonup> string)"
  kubeCreate :: "event list \<Rightarrow> object \<Rightarrow> createFailure option"
  NewClientWithAccessKey :: "string \<Rightarrow> string \<Rightarrow> string \<Rightarrow> string + client"
  backend :: "event list \<Rightarrow> nat \<Rightarrow> client \<Rightarrow> request \<Rightarrow> nat \<times> (string + string)"
  tickFirst :: "event list \<Rightarrow> nat \<Rightarrow> bool"
  ToClusterKey :: "Virtualcluster \<Rightarrow> string"
  AdminSecretName :: string

text \<open>The world after a call to the backend that took \<open>took\<close> and returned \<open>res\<close>.\<close>

definition afterCall :: "world \<Rightarrow> client \<Rightarrow> request \<Rightarrow> nat \<Rightarrow> error + string \<Rightarrow> world" where
  "afterCall w cli req took res =
     w\<lparr>now := now w + took, trace := trace w @ [HttpCall (now w) cli req took res]\<rparr>"

text \<open>
  What \<^verbatim>\<open>ProcessCommonRequest\<close> hands back for an answer of the backend: the
  transport error as an \<^typ>\<open>error\<close>, or the content of the response.
\<close>

definition received :: "string + string \<Rightarrow> error + string" where
  "received answer = (case answer of Inl m \<Rightarrow> Inl (Transport m) | Inr content \<Rightarrow> Inr content)"

text \<open>\<^verbatim>\<open>cli.ProcessCommonRequest(request)\<close>: the call is recorded and takes its time.\<close>

definition ProcessCommonRequest ::
    "env \<Rightarrow> client \<Rightarrow> request \<Rightarrow> world \<Rightarrow> (error + string) \<times> world" where
  "ProcessCommonRequest env cli req w =
     (let (took, answer) = backend env (trace w) (now w) cli req
      in (received answer, afterCall w cli req took (received answer)))"

text \<open>\<^verbatim>\<open>mpa.Get\<close> and \<^verbatim>\<open>mpa.Create\<close>.\<close>

definition mpaGet ::
    "env \<Rightarrow> kind \<Rightarrow> string \<Rightarrow> string \<Rightarrow> world \<Rightarrow> (error + (string \<rightharpoonup> string)) \<times> world" where
  "mpaGet env k ns name w =
     (let res = (case kubeGet env (trace w) k ns name of
                   Inl m \<Rightarrow> Inl (ApiError m)
                 | Inr d \<Rightarrow> Inr d)
      in (res, w\<lparr>trace := trace w @ [KubeGet k ns name]\<rparr>))"

definition mpaCreate :: "env \<Rightarrow> object \<Rightarrow> world \<Rightarrow> error option \<times> world" where
  "mpaCreate env obj w =
     (let res = (case kubeCreate env (trace w) obj of
                   None \<Rightarrow> None
                 | Some (Exists m) \<Rightarrow> Some (AlreadyExists m)
                 | Some (Refused m) \<Rightarrow> Some (ApiError m))
      in (res, w\<lparr>trace := trace w @ [KubeCreate obj res]\<rparr>))"

text \<open>
  Modelled from the spec: \<^verbatim>\<open>secret.KubeconfigToSecret\<close> is in a package whose
  source is not at hand; the specification says that the kubeconfig is wrapped into
  a named secret placed in the tenant's namespace.
\<close>

definition KubeconfigToSecret :: "string \<Rightarrow> string \<Rightarrow> string \<Rightarrow> object" where
  "KubeconfigToSecret name ns kbCfg = SecretObj name ns kbCfg"

subsection \<open>Requests to the backend\<close>

text \<open>The loop of \<^verbatim>\<open>getClusterIDByName\<close> over the listed clusters.\<close>

fun findClusterID :: "string \<Rightarrow> (string \<rightharpoonup> json) list \<Rightarrow> error + string" where
  "findClusterID clusterName [] =
     Inl (Msg (''can't find cluster information for cluster('' @ clusterName @ '')''))"
| "findClusterID clusterName (clsInfo # rest) =
     (case clsInfo ''name'' of
        None \<Rightarrow> Inl (Msg ''clusterInfo doesn't contain 'name' field'')
      | Some clsNameInf \<Rightarrow>
          (case clsNameInf of
             JString clsName \<Rightarrow>
               if clsName = clusterName
               then (case clsInfo ''cluster_id'' of
                       None \<Rightarrow> Inl (Msg ''clusterInfo doesn't contain 'cluster_id' field'')
                     | Some clsIDInf \<Rightarrow>
                         (case clsIDInf of
                            JString clsID \<Rightarrow> Inr clsID
                          | _ \<Rightarrow> Inl (Msg ''fail to assert 'cluster_id' to string'')))
               else findClusterID clusterName rest
           | _ \<Rightarrow> Inl (Msg ''fail to assert 'name' to string'')))"

definition listRequest :: "string \<Rightarrow> request" where
  "listRequest region =
     NewCommonRequest\<lparr>Method := ''GET'', Scheme := ''https'', ReqDomain := ''cs.aliyuncs.com'',
       Version := ''2015-12-15'', PathPattern := ''/clusters'',
       Headers := [(''Content-Type'', ''application/json'')],
       QueryParams := [(''RegionId'', region)]\<rparr>"

definition getClusterIDByName ::
    "env \<Rightarrow> client \<Rightarrow> string \<Rightarrow> string \<Rightarrow> world \<Rightarrow> (error + string) \<times> world" where
  "getClusterIDByName env cli clusterName region w =
     (let (response, w') = ProcessCommonRequest env cli (listRequest region) w in
      case response of
        Inl err \<Rightarrow> (Inl err, w')
      | Inr content \<Rightarrow>
          (case UnmarshalObjectList env content of
             Inl m \<Rightarrow> (Inl (JSONError m), w')
           | Inr clsInfoLst \<Rightarrow> (findClusterID clusterName clsInfoLst, w')))"

text \<open>The body of the creation request, as the two \<^verbatim>\<open>fmt.Sprintf\<close> calls build it.\<close>

definition creationBody :: "string \<Rightarrow> ASKConfig \<Rightarrow> string" where
  \<open>creationBody clusterName askCfg =
     (let vpcIDEntry =
            (if vpcID askCfg \<noteq> ''''
             then ''"\<newline>vpc_id": '' @ vpcID askCfg @ ''\<newline>''
             else '''')
      in ''{\<newline>"cluster_type": "Ask",\<newline>"name": "'' @ clusterName
         @ ''", \<newline>"region_id": "'' @ regionID askCfg
         @ ''",\<newline>"zoneid": "'' @ zoneID askCfg
         @ ''", '' @ vpcIDEntry
         @ ''\<newline>"nat_gateway": true,\<newline>"private_zone": true\<newline>}'')\<close>

definition creationRequest :: "string \<Rightarrow> ASKConfig \<Rightarrow> request" where
  "creationRequest clusterName askCfg =
     NewCommonRequest\<lparr>Method := ''POST'', Scheme := ''https'', ReqDomain := ''cs.aliyuncs.com'',
       Version := ''2015-12-15'', PathPattern := ''/clusters'',
       Headers := [(''Content-Type'', ''application/json'')],
       QueryParams := [(''RegionId'', regionID askCfg)],
       Content := creationBody clusterName askCfg\<rparr>"

definition sendCreationRequest ::
    "env \<Rightarrow> client \<Rightarrow> string \<Rightarrow> ASKConfig \<Rightarrow> world \<Rightarrow> (error + string) \<times> world" where
  "sendCreationRequest env cli clusterName askCfg w =
     (let (response, w') = ProcessCommonRequest env cli (creationRequest clusterName askCfg) w in
      case response of
        Inl err \<Rightarrow> (Inl err, w')
      | Inr content \<Rightarrow>
          (case isErrResponse (IsJSON env) content of
             Inl p \<Rightarrow> (Inl p, w')
           | Inr (Some sdkErr) \<Rightarrow>
               if errorCode sdkErr = ClusterNameAlreadyExist
               then (case getClusterIDByName env cli clusterName (regionID askCfg) w' of
                       (Inl getClsIDErr, w'') \<Rightarrow> (Inl getClsIDErr, w'')
                     | (Inr clsID, w'') \<Rightarrow> (Inr clsID, w''))
               else (Inl (SDK sdkErr), w')
           | Inr None \<Rightarrow>
               (case UnmarshalStringMap env content of
                  Inl m \<Rightarrow> (Inl (JSONError m), w')
                | Inr clsInfo \<Rightarrow>
                    (case clsInfo ''cluster_id'' of
                       None \<Rightarrow> (Inl (Msg ''can't find 'cluster_id' in response body''), w')
                     | Some clusterID \<Rightarrow> (Inr clusterID, w')))))"

definition stateRequest :: "string \<Rightarrow> string \<Rightarrow> request" where
  "stateRequest clusterID region =
     NewCommonRequest\<lparr>Method := ''GET'', Scheme := ''https'', ReqDomain := ''cs.aliyuncs.com'',
       Version := ''2015-12-15'', PathPattern := ''/clusters/'' @ clusterID,
       Headers := [(''Content-Type'', ''application/json'')],
       QueryParams := [(''RegionId'', region)]\<rparr>"

text \<open>
  \<^verbatim>\<open>getASKState\<close> once the request has come back: \<open>response\<close> is the pair that
  \<^verbatim>\<open>ProcessCommonRequest\<close> returned. When the body is an error response the source
  returns \<^verbatim>\<open>"", err\<close>, and \<^verbatim>\<open>err\<close> is the transport error, which is
  \<^verbatim>\<open>nil\<close> there: the caller gets the empty state and no error.
\<close>

definition readASKState :: "env \<Rightarrow> string \<Rightarrow> error + string \<Rightarrow> error + string" where
  "readASKState env clusterID response =
     (case response of
        Inl err \<Rightarrow> Inl err
      | Inr content \<Rightarrow>
          (case isErrResponse (IsJSON env) content of
             Inl p \<Rightarrow> Inl p
           | Inr (Some errRep) \<Rightarrow> Inr ''''
           | Inr None \<Rightarrow>
               (case UnmarshalObject env content of
                  Inl m \<Rightarrow> Inl (JSONError m)
                | Inr clsInfo \<Rightarrow>
                    (case clsInfo ''cluster_id'' of
                       None \<Rightarrow> Inl (Msg ''cluster info entry doesn't contain 'cluster_id' field'')
                     | Some clsIDInf \<Rightarrow>
                         (case clsIDInf of
                            JString clsID \<Rightarrow>
                              if clsID \<noteq> clusterID
                              then Inl (Msg (''cluster id does not match: got '' @ clsID
                                             @ '' want '' @ clusterID))
                              else (case clsInfo ''state'' of
                                      None \<Rightarrow> Inl (Msg (''fail to get 'state' of cluster(''
                                                         @ clusterID @ '')''))
                                    | Some clsStateInf \<Rightarrow>
                                        (case clsStateInf of
                                           JString clsState \<Rightarrow> Inr clsState
                                         | _ \<Rightarrow> Inl (Msg ''fail to assert cluster.state to string'')))
                          | _ \<Rightarrow> Inl (Msg ''fail to assert cluster id''))))))"

definition getASKState ::
    "env \<Rightarrow> client \<Rightarrow> string \<Rightarrow> string \<Rightarrow> world \<Rightarrow> (error + string) \<times> world" where
  "getASKState env cli clusterID region w =
     (let (response, w') = ProcessCommonRequest env cli (stateRequest clusterID region) w
      in (readASKState env clusterID response, w'))"

definition kubeConfigRequest :: "string \<Rightarrow> string \<Rightarrow> request" where
  "kubeConfigRequest clusterID region =
     NewCommonRequest\<lparr>Method := ''GET'', Scheme := ''https'', ReqDomain := ''cs.aliyuncs.com'',
       Version := ''2015-12-15'', PathPattern := ''/k8s/'' @ clusterID @ ''/user_config'',
       Headers := [(''Content-Type'', ''application/json'')],
       QueryParams := [(''RegionId'', region)]\<rparr>"

definition getASKKubeConfig ::
    "env \<Rightarrow> client \<Rightarrow> string \<Rightarrow> string \<Rightarrow> world \<Rightarrow> (error + string) \<times> world" where
  "getASKKubeConfig env cli clusterID region w =
     (let (response, w') = ProcessCommonRequest env cli (kubeConfigRequest clusterID region) w in
      case response of
        Inl err \<Rightarrow> (Inl err, w')
      | Inr content \<Rightarrow>
          (case UnmarshalStringMap env content of
             Inl m \<Rightarrow> (Inl (JSONError m), w')
           | Inr kbCfgJson \<Rightarrow>
               (case kbCfgJson ''config'' of
                  None \<Rightarrow> (Inl (Msg (''kubeconfig of cluster('' @ clusterID @ '') is not found'')), w')
                | Some kbCfg \<Rightarrow> (Inr kbCfg, w'))))"

definition deletionRequest :: "string \<Rightarrow> string \<Rightarrow> request" where
  "deletionRequest clusterID region =
     NewCommonRequest\<lparr>Method := ''DELETE'', Scheme := ''https'', ReqDomain := ''cs.aliyuncs.com'',
       Version := ''2015-12-15'', PathPattern := ''/clusters/'' @ clusterID,
       Headers := [(''Content-Type'', ''application/json'')],
       QueryParams := [(''RegionId'', region)]\<rparr>"

text \<open>\<^verbatim>\<open>sendDeletionRequest\<close>: the response is dropped, only the transport error counts.\<close>

definition sendDeletionRequest ::
    "env \<Rightarrow> client \<Rightarrow> string \<Rightarrow> string \<Rightarrow> world \<Rightarrow> error option \<times> world" where
  "sendDeletionRequest env cli clusterID region w =
     (let (response, w') = ProcessCommonRequest env cli (deletionRequest clusterID region) w in
      case response of
        Inl err \<Rightarrow> (Some err, w')
      | Inr content \<Rightarrow> (None, w'))"

subsection \<open>Credentials and configuration\<close>

text \<open>
  \<^verbatim>\<open>getAliyunAKPair\<close>. The three results are named in the source, and no branch
  returns early: a later missing field overwrites an earlier error.
\<close>

definition getAliyunAKPair :: "env \<Rightarrow> world \<Rightarrow> (string \<times> string \<times> error option) \<times> world" where
  "getAliyunAKPair env w =
     (let vcManagerNs =
            (case GetPodNsFromInside env (trace w) of
               Inl getNsErr \<Rightarrow> DefaultVcManagerNs
             | Inr ns \<Rightarrow> ns);
          (got, w') = mpaGet env SecretKind vcManagerNs AliyunAkSrt w;
          err0 = (case got of Inl getErr \<Rightarrow> Some getErr | Inr d \<Rightarrow> None);
          akSrtData = (case got of Inl getErr \<Rightarrow> Map.empty | Inr d \<Rightarrow> d);
          err1 = (case akSrtData AliyunAKIDName of
                    None \<Rightarrow> Some (Msg ''aliyun accessKeyID doesn't exist'')
                  | Some keyIDByt \<Rightarrow> err0);
          keyID = (case akSrtData AliyunAKIDName of None \<Rightarrow> '''' | Some keyIDByt \<Rightarrow> keyIDByt);
          err2 = (case akSrtData AliyunAKSecretName of
                    None \<Rightarrow> Some (Msg ''aliyun accessKeySecret doesn't exist'')
                  | Some keySrtByt \<Rightarrow> err1);
          keySecret = (case akSrtData AliyunAKSecretName of
                         None \<Rightarrow> ''''
                       | Some keySrtByt \<Rightarrow> keySrtByt)
      in ((keyID, keySecret, err2), w'))"

text \<open>\<^verbatim>\<open>getASKConfigs\<close>: a missing region or zone returns at once, with what is set so far.\<close>

definition getASKConfigs :: "env \<Rightarrow> world \<Rightarrow> (ASKConfig \<times> error option) \<times> world" where
  "getASKConfigs env w =
     (let vcManagerNs =
            (case GetPodNsFromInside env (trace w) of
               Inl getNsErr \<Rightarrow> DefaultVcManagerNs
             | Inr ns \<Rightarrow> ns);
          (got, w') = mpaGet env ConfigMapKind vcManagerNs AliyunASKConfigMap w;
          err0 = (case got of Inl getErr \<Rightarrow> Some getErr | Inr d \<Rightarrow> None);
          ASKCfgMpData = (case got of Inl getErr \<Rightarrow> Map.empty | Inr d \<Rightarrow> d);
          cfg = \<lparr>vpcID = '''', regionID = '''', zoneID = ''''\<rparr>
      in case ASKCfgMpData AliyunASKCfgMpRegionID of
           None \<Rightarrow> ((cfg, Some (Msg (AliyunASKCfgMpRegionID @ '' not exist''))), w')
         | Some region \<Rightarrow>
             (case ASKCfgMpData AliyunASKCfgMpZoneID of
                None \<Rightarrow>
                  ((cfg\<lparr>regionID := region\<rparr>,
                    Some (Msg (AliyunASKCfgMpZoneID @ '' not exist''))), w')
              | Some zone \<Rightarrow>
                  (case ASKCfgMpData AliyunASKCfgMpVPCID of
                     Some vpc \<Rightarrow>
                       ((cfg\<lparr>regionID := region, zoneID := zone, vpcID := vpc\<rparr>, err0), w')
                   | None \<Rightarrow> ((cfg\<lparr>regionID := region, zoneID := zone\<rparr>, err0), w'))))"

subsection \<open>Waiting\<close>

text \<open>
  One \<^verbatim>\<open>select\<close> between a fresh \<^verbatim>\<open>time.After(d)\<close> and the channel of a timer
  that fires at \<open>deadline\<close> (it was started once, before the loop). The result is
  \<open>True\<close> when the fresh timer is received, at \<open>now + d\<close>, and \<open>False\<close> when the
  deadline is: at once if it has already fired, else when it fires. When both fire
  at the same instant either may be received.
\<close>

definition selectTimers :: "env \<Rightarrow> nat \<Rightarrow> nat \<Rightarrow> world \<Rightarrow> bool \<times> world" where
  "selectTimers env d deadline w =
     (if now w + d < deadline \<or> (now w + d = deadline \<and> tickFirst env (trace w) (now w))
      then (True, w\<lparr>now := now w + d\<rparr>)
      else (False, w\<lparr>now := max (now w) deadline\<rparr>))"

subsection \<open>Creating a cluster\<close>

text \<open>Steps 1 and 2 of \<^verbatim>\<open>CreateVirtualCluster\<close>: credentials, configuration, the request.\<close>

definition CreateVirtualCluster_request ::
    "env \<Rightarrow> Virtualcluster \<Rightarrow> world \<Rightarrow> (error + client \<times> ASKConfig \<times> string) \<times> world" where
  "CreateVirtualCluster_request env vc w =
     (case getAliyunAKPair env w of
        ((aliyunAKID, aliyunAKSrt, Some err), w1) \<Rightarrow> (Inl err, w1)
      | ((aliyunAKID, aliyunAKSrt, None), w1) \<Rightarrow>
          (case getASKConfigs env w1 of
             ((askCfg, Some err), w2) \<Rightarrow> (Inl err, w2)
           | ((askCfg, None), w2) \<Rightarrow>
               (case NewClientWithAccessKey env (regionID askCfg) aliyunAKID aliyunAKSrt of
                  Inl m \<Rightarrow> (Inl (Transport m), w2)
                | Inr cli \<Rightarrow>
                    (case sendCreationRequest env cli (Name vc) askCfg w2 of
                       (Inl err, w3) \<Rightarrow> (Inl err, w3)
                     | (Inr clsID, w3) \<Rightarrow> (Inr (cli, askCfg, clsID), w3)))))"

text \<open>
  Step 3, the loop labelled \<^verbatim>\<open>OuterLoop\<close>; \<open>creationTimeout\<close> is the instant at
  which the timer started before the loop fires. \<open>None\<close> is the \<^verbatim>\<open>break\<close>.
\<close>

function CreateVirtualCluster_poll ::
    "env \<Rightarrow> client \<Rightarrow> string \<Rightarrow> string \<Rightarrow> nat \<Rightarrow> world \<Rightarrow> error option \<times> world" where
  "CreateVirtualCluster_poll env cli clsID region creationTimeout w =
     (let (tick, w1) = selectTimers env (10 * Second) creationTimeout w in
      if tick
      then (case getASKState env cli clsID region w1 of
              (Inl err, w2) \<Rightarrow> (Some err, w2)
            | (Inr clsState, w2) \<Rightarrow>
                if clsState = ''running'' then (None, w2)
                else CreateVirtualCluster_poll env cli clsID region creationTimeout w2)
      else (Some (Msg (''creating cluster('' @ clsID @ '') timeout'')), w1))"
  by pat_completeness auto
termination
  apply (relation "measure (\<lambda>(env, cli, clsID, region, creationTimeout, w).
                              creationTimeout - now w)")
   apply simp
  apply (auto simp: selectTimers_def getASKState_def ProcessCommonRequest_def afterCall_def
              Second_def Let_def
              split: if_splits prod.splits)
  done

declare CreateVirtualCluster_poll.simps [simp del]

text \<open>\<^verbatim>\<open>apierrors.IsAlreadyExists(err)\<close>, of an error that may be \<^verbatim>\<open>nil\<close>.\<close>

definition IsAlreadyExists :: "error option \<Rightarrow> bool" where
  "IsAlreadyExists err = (case err of Some (AlreadyExists m) \<Rightarrow> True | _ \<Rightarrow> False)"

text \<open>Steps 4 to 6: the root namespace, the kubeconfig, the admin secret.\<close>

definition CreateVirtualCluster_publish ::
    "env \<Rightarrow> Virtualcluster \<Rightarrow> client \<Rightarrow> ASKConfig \<Rightarrow> string \<Rightarrow> world \<Rightarrow> error option \<times> world" where
  "CreateVirtualCluster_publish env vc cli askCfg clsID w =
     (let vcNs = ToClusterKey env vc;
          (nsErr, w1) = mpaCreate env (NamespaceObj (ToClusterKey env vc)) w
      in if nsErr \<noteq> None \<and> \<not> IsAlreadyExists nsErr then (nsErr, w1)
         else
           (case getASKKubeConfig env cli clsID (regionID askCfg) w1 of
              (Inl err, w2) \<Rightarrow> (Some err, w2)
            | (Inr kbCfg, w2) \<Rightarrow>
                (let adminSrt = KubeconfigToSecret (AdminSecretName env) vcNs kbCfg;
                     (srtErr, w3) = mpaCreate env adminSrt w2
                 in if srtErr \<noteq> None \<and> \<not> IsAlreadyExists srtErr then (srtErr, w3)
                    else (None, w3))))"

text \<open>
  \<^verbatim>\<open>CreateVirtualCluster\<close>. The deadline timer is started when the request has
  returned, 120 seconds ahead.
\<close>

definition CreateVirtualCluster :: "env \<Rightarrow> Virtualcluster \<Rightarrow> world \<Rightarrow> error option \<times> world" where
  "CreateVirtualCluster env vc w =
     (case CreateVirtualCluster_request env vc w of
        (Inl err, w1) \<Rightarrow> (Some err, w1)
      | (Inr (cli, askCfg, clsID), w1) \<Rightarrow>
          (case CreateVirtualCluster_poll env cli clsID (regionID askCfg)
                  (now w1 + 120 * Second) w1 of
             (Some err, w2) \<Rightarrow> (Some err, w2)
           | (None, w2) \<Rightarrow> CreateVirtualCluster_publish env vc cli askCfg clsID w2))"

subsection \<open>Deleting a cluster\<close>

text \<open>\<^verbatim>\<open>DeleteVirtualCluster\<close> up to the lookup of the cluster's id.\<close>

definition DeleteVirtualCluster_resolve ::
    "env \<Rightarrow> Virtualcluster \<Rightarrow> world \<Rightarrow> (error + client \<times> ASKConfig \<times> string) \<times> world" where
  "DeleteVirtualCluster_resolve env vc w =
     (case getAliyunAKPair env w of
        ((aliyunAKID, aliyunAKSrt, Some err), w1) \<Rightarrow> (Inl err, w1)
      | ((aliyunAKID, aliyunAKSrt, None), w1) \<Rightarrow>
          (case getASKConfigs env w1 of
             ((askCfg, Some err), w2) \<Rightarrow> (Inl err, w2)
           | ((askCfg, None), w2) \<Rightarrow>
               (case NewClientWithAccessKey env (regionID askCfg) aliyunAKID aliyunAKSrt of
                  Inl m \<Rightarrow> (Inl (Transport m), w2)
                | Inr cli \<Rightarrow>
                    (case getClusterIDByName env cli (Name vc) (regionID askCfg) w2 of
                       (Inl err, w3) \<Rightarrow> (Inl err, w3)
                     | (Inr clusterID, w3) \<Rightarrow> (Inr (cli, askCfg, clusterID), w3)))))"

text \<open>The loop labelled \<^verbatim>\<open>OuterLoop\<close> of \<^verbatim>\<open>DeleteVirtualCluster\<close>.\<close>

function DeleteVirtualCluster_poll ::
    "env \<Rightarrow> client \<Rightarrow> string \<Rightarrow> string \<Rightarrow> string \<Rightarrow> nat \<Rightarrow> world \<Rightarrow> error option \<times> world" where
  "DeleteVirtualCluster_poll env cli vcName clusterID region deletionTimeout w =
     (let (tick, w1) = selectTimers env (2 * Second) deletionTimeout w in
      if tick
      then (case getASKState env cli clusterID region w1 of
              (Inl err, w2) \<Rightarrow> if clusterNotFoundErr err then (None, w2) else (Some err, w2)
            | (Inr state, w2) \<Rightarrow>
                if state = ''deleting'' then (None, w2)
                else DeleteVirtualCluster_poll env cli vcName clusterID region deletionTimeout w2)
      else (Some (Msg (''Delete ASK('' @ vcName @ '') timeout'')), w1))"
  by pat_completeness auto
termination
  apply (relation "measure (\<lambda>(env, cli, vcName, clusterID, region, deletionTimeout, w).
                              deletionTimeout - now w)")
   apply simp
  apply (auto simp: selectTimers_def getASKState_def ProcessCommonRequest_def afterCall_def
              Second_def Let_def
              split: if_splits prod.splits)
  done

declare DeleteVirtualCluster_poll.simps [simp del]

text \<open>
  \<^verbatim>\<open>DeleteVirtualCluster\<close>. The deadline timer is started when the deletion
  request has returned, 100 seconds ahead.
\<close>

definition DeleteVirtualCluster :: "env \<Rightarrow> Virtualcluster \<Rightarrow> world \<Rightarrow> error option \<times> world" where
  "DeleteVirtualCluster env vc w =
     (case DeleteVirtualCluster_resolve env vc w of
        (Inl err, w1) \<Rightarrow> (Some err, w1)
      | (Inr (cli, askCfg, clusterID), w1) \<Rightarrow>
          (case sendDeletionRequest env cli clusterID (regionID askCfg) w1 of
             (Some err, w2) \<Rightarrow> (Some err, w2)
           | (None, w2) \<Rightarrow>
               DeleteVirtualCluster_poll env cli (Name vc) clusterID (regionID askCfg)
                 (now w2 + 100 * Second) w2))"

definition GetMasterProvisioner :: string where
  "GetMasterProvisioner = ''aliyun''"

subsection \<open>Reading the trace\<close>

text \<open>The events of a run that starts in \<open>w\<close> and ends in \<open>w'\<close>.\<close>

definition newEvents :: "world \<Rightarrow> world \<Rightarrow> event list" where
  "newEvents w w' = drop (length (trace w)) (trace w')"

fun isCreate :: "event \<Rightarrow> bool" where
  "isCreate (KubeCreate obj res) = True"
| "isCreate ev = False"

fun isDeletion :: "event \<Rightarrow> bool" where
  "isDeletion (HttpCall sent cli req took res) = (Method req = ''DELETE'')"
| "isDeletion ev = False"

text \<open>The event is a probe of the state of \<open>clusterID\<close> to which \<open>getASKState\<close> returned \<open>r\<close>.\<close>

fun probeReturned :: "env \<Rightarrow> client \<Rightarrow> string \<Rightarrow> string \<Rightarrow> event \<Rightarrow> error + string \<Rightarrow> bool" where
  "probeReturned env cli clusterID region (HttpCall sent c req took res) r =
     (c = cli \<and> req = stateRequest clusterID region \<and> readASKState env clusterID res = r)"
| "probeReturned env cli clusterID region ev r = False"

text \<open>
  The events are calls of \<open>req\<close> by \<open>cli\<close> and nothing else, the first one sent
  \<open>d\<close> after \<open>t\<close> and each further one \<open>d\<close> after the one before it returned.
\<close>

fun pollsEvery :: "nat \<Rightarrow> client \<Rightarrow> request \<Rightarrow> nat \<Rightarrow> event list \<Rightarrow> bool" where
  "pollsEvery d cli req t [] = True"
| "pollsEvery d cli req t (HttpCall sent c r took res # evs) =
     (sent = t + d \<and> c = cli \<and> r = req \<and> pollsEvery d cli req (sent + took) evs)"
| "pollsEvery d cli req t (ev # evs) = False"

subsection \<open>Sample inputs\<close>

definition sampleCfg :: ASKConfig where
  "sampleCfg = \<lparr>vpcID = '''', regionID = ''cn-beijing'', zoneID = ''cn-beijing-a''\<rparr>"

definition sampleVpcCfg :: ASKConfig where
  "sampleVpcCfg = \<lparr>vpcID = ''vpc-1'', regionID = ''cn-beijing'', zoneID = ''cn-beijing-a''\<rparr>"

definition sampleVc :: Virtualcluster where
  "sampleVc = \<lparr>Name = ''tenant-a'', Namespace = ''default'', UID = ''uid-1''\<rparr>"

definition sampleClient :: client where
  "sampleClient =
     \<lparr>clientRegionID = ''cn-beijing'', clientKeyID = ''id'', clientKeySecret = ''secret''\<rparr>"

definition world0 :: world where
  "world0 = \<lparr>now = 0, trace = []\<rparr>"

text \<open>Bodies of a backend that knows one cluster, \<open>cls-123\<close>, named \<open>tenant-a\<close>.\<close>

definition createdBody :: string where
  \<open>createdBody = ''{"cluster_id":"cls-123"}''\<close>

definition stateBody :: "string \<Rightarrow> string" where
  \<open>stateBody st = ''{"cluster_id":"cls-123","state":"'' @ st @ ''"}''\<close>

definition listBody :: string where
  \<open>listBody = ''[{"name":"tenant-a","cluster_id":"cls-123"}]''\<close>

definition kubeconfigBody :: string where
  \<open>kubeconfigBody = ''{"config":"kubeconfig-of-cls-123"}''\<close>

text \<open>An error body of the documented shape, with the code of a cluster that is not found.\<close>

definition notFoundBody :: string where
  \<open>notFoundBody =
     ''ERROR: SDK.ServerError\<newline>ErrorCode:\<newline>Recommend:\<newline>RequestId:\<newline>Message: {"code":"ErrorClusterNotFound","message":"cluster cls-123 not found","requestId":"R2","status":404}''\<close>

text \<open>
  An error body on which the classifier does store the bare code: the code token
  stands alone between two colons.
\<close>

definition conflictBody :: string where
  \<open>conflictBody =
     ''ERROR: SDK.ServerError\<newline>ErrorCode:\<newline>Recommend:\<newline>RequestId:\<newline>Message: code:"ClusterNameAlreadyExist":message:"cluster name tenant-a already exist"''\<close>

text \<open>The decoders of the sample environment know the bodies above and nothing else.\<close>

definition sampleIsJSON :: "string \<Rightarrow> bool" where
  "sampleIsJSON s =
     (s = createdBody \<or> s = kubeconfigBody \<or> s = stateBody ''creating''
      \<or> s = stateBody ''running'' \<or> s = stateBody ''deleting'')"

definition sampleUnmarshalObject :: "string \<Rightarrow> string + (string \<rightharpoonup> json)" where
  "sampleUnmarshalObject s =
     (if s = stateBody ''creating''
      then Inr [''cluster_id'' \<mapsto> JString ''cls-123'', ''state'' \<mapsto> JString ''creating'']
      else if s = stateBody ''running''
      then Inr [''cluster_id'' \<mapsto> JString ''cls-123'', ''state'' \<mapsto> JString ''running'']
      else if s = stateBody ''deleting''
      then Inr [''cluster_id'' \<mapsto> JString ''cls-123'', ''state'' \<mapsto> JString ''deleting'']
      else Inl ''invalid character'')"

definition sampleUnmarshalObjectList :: "string \<Rightarrow> string + (string \<rightharpoonup> json) list" where
  "sampleUnmarshalObjectList s =
     (if s = listBody
      then Inr [[''name'' \<mapsto> JString ''tenant-a'', ''cluster_id'' \<mapsto> JString ''cls-123'']]
      else Inl ''invalid character'')"

definition sampleUnmarshalStringMap :: "string \<Rightarrow> string + (string \<rightharpoonup> string)" where
  "sampleUnmarshalStringMap s =
     (if s = createdBody then Inr [''cluster_id'' \<mapsto> ''cls-123'']
      else if s = kubeconfigBody then Inr [''config'' \<mapsto> ''kubeconfig-of-cls-123'']
      else Inl ''invalid character'')"

text \<open>The access keys and the configuration are in the default namespace only.\<close>

definition sampleKubeGet ::
    "event list \<Rightarrow> kind \<Rightarrow> string \<Rightarrow> string \<Rightarrow> string + (string \<rightharpoonup> string)" where
  "sampleKubeGet tr k ns name =
     (if ns = ''vc-manager'' \<and> k = SecretKind \<and> name = ''aliyun-accesskey''
      then Inr [''accessKeyID'' \<mapsto> ''id'', ''accessKeySecret'' \<mapsto> ''secret'']
      else if ns = ''vc-manager'' \<and> k = ConfigMapKind \<and> name = ''aliyun-ask-config''
      then Inr [''askRegionID'' \<mapsto> ''cn-beijing'', ''askZoneID'' \<mapsto> ''cn-beijing-a'']
      else Inl ''not found'')"

text \<open>
  A backend that answers every call after 100 ms: \<open>postBody\<close> to a creation,
  \<open>deleteAnswer\<close> to a deletion, the list of its one cluster, the state
  \<open>stateAt t\<close> to a probe sent at \<open>t\<close>, and the kubeconfig.
\<close>

definition sampleBackend ::
    "string \<Rightarrow> string + string \<Rightarrow> (nat \<Rightarrow> string)
     \<Rightarrow> event list \<Rightarrow> nat \<Rightarrow> client \<Rightarrow> request \<Rightarrow> nat \<times> (string + string)" where
  "sampleBackend postBody deleteAnswer stateAt tr t cli req =
     (100000000,
      if Method req = ''POST'' then Inr postBody
      else if Method req = ''DELETE'' then deleteAnswer
      else if PathPattern req = ''/clusters'' then Inr listBody
      else if PathPattern req = ''/clusters/cls-123'' then Inr (stateAt t)
      else if PathPattern req = ''/k8s/cls-123/user_config'' then Inr kubeconfigBody
      else Inl ''connection refused'')"

text \<open>The sample environment: the pod's namespace cannot be read.\<close>

definition sampleEnv ::
    "(event list \<Rightarrow> nat \<Rightarrow> client \<Rightarrow> request \<Rightarrow> nat \<times> (string + string)) \<Rightarrow> env" where
  "sampleEnv b =
     \<lparr>IsJSON = sampleIsJSON,
      UnmarshalObject = sampleUnmarshalObject,
      UnmarshalObjectList = sampleUnmarshalObjectList,
      UnmarshalStringMap = sampleUnmarshalStringMap,
      GetPodNsFromInside = (\<lambda>tr. Inl ''no such file or directory''),
      kubeGet = sampleKubeGet,
      kubeCreate = (\<lambda>tr obj. None),
      NewClientWithAccessKey =
        (\<lambda>region keyID keySecret.
           Inr \<lparr>clientRegionID = region, clientKeyID = keyID, clientKeySecret = keySecret\<rparr>),
      backend = b,
      tickFirst = (\<lambda>tr t. False),
      ToClusterKey = (\<lambda>vc. Namespace vc @ ''-'' @ Name vc),
      AdminSecretName = ''admin-kubeconfig''\<rparr>"

text \<open>
  The backend accepts the creation; the cluster is \<open>creating\<close> until 25 s and
  \<open>running\<close> from then on.
\<close>

definition happyEnv :: env where
  "happyEnv =
     sampleEnv (sampleBackend createdBody (Inr '''')
       (\<lambda>t. if t < 25 * Second then stateBody ''creating'' else stateBody ''running''))"

text \<open>The backend answers the creation with the name conflict.\<close>

definition conflictEnv :: env where
  "conflictEnv = sampleEnv (sampleBackend conflictBody (Inr '''') (\<lambda>t. stateBody ''running''))"

text \<open>The cluster never leaves \<open>creating\<close>.\<close>

definition creatingEnv :: env where
  "creatingEnv = sampleEnv (sampleBackend createdBody (Inr '''') (\<lambda>t. stateBody ''creating''))"

text \<open>Every state probe is answered with the error body of a cluster that is not found.\<close>

definition notFoundEnv :: env where
  "notFoundEnv = sampleEnv (sampleBackend createdBody (Inr '''') (\<lambda>t. notFoundBody))"

text \<open>
  An error body on which the classifier stores the bare code of a cluster that is
  not found, and a backend that answers every state probe with it.
\<close>

definition bareNotFoundBody :: string where
  \<open>bareNotFoundBody =
     ''ERROR: SDK.ServerError\<newline>ErrorCode:\<newline>Recommend:\<newline>RequestId:\<newline>Message: code:"ErrorClusterNotFound":message:"cluster cls-123 not found"''\<close>

definition bareNotFoundEnv :: env where
  "bareNotFoundEnv = sampleEnv (sampleBackend createdBody (Inr '''') (\<lambda>t. bareNotFoundBody))"

text \<open>
  The deletion is answered, without a transport error, by an error body; the state
  probes then read \<open>deleting\<close>.
\<close>

definition refusedDeleteEnv :: env where
  "refusedDeleteEnv =
     sampleEnv (sampleBackend createdBody (Inr notFoundBody) (\<lambda>t. stateBody ''deleting''))"

text \<open>The deletion fails in transport.\<close>

definition brokenDeleteEnv :: env where
  "brokenDeleteEnv =
     sampleEnv (sampleBackend createdBody (Inl ''connection reset'') (\<lambda>t. stateBody ''deleting''))"

text \<open>The five-line error body that the specification gives as its literal sample.\<close>

definition sampleErrorBody :: string where
  \<open>sampleErrorBody =
     ''ERROR: SDK.ServerError\<newline>ErrorCode:\<newline>Recommend:\<newline>RequestId:\<newline>Message: {"code":"ClusterNameAlreadyExist","message":"cluster name X already exist","requestId":"R1","status":400}''\<close>

section \<open>Properties\<close>

subsection \<open>Calls to the backend\<close>

lemma received_simps [simp]:
  "received (Inl m) = Inl (Transport m)"
  "received (Inr content) = Inr content"
  by (simp_all add: received_def)

lemma ProcessCommonRequest_answer:
  assumes "backend env (trace w) (now w) cli req = (took, answer)"
  shows "ProcessCommonRequest env cli req w =
           (received answer, afterCall w cli req took (received answer))"
  using assms by (simp add: ProcessCommonRequest_def)

subsection \<open>The classifier on the sample body\<close>

lemma Split_sample_lines:
  \<open>Split sampleErrorBody ''\<newline>'' =
     [''ERROR: SDK.ServerError'', ''ErrorCode:'', ''Recommend:'', ''RequestId:'',
      ''Message: {"code":"ClusterNameAlreadyExist","message":"cluster name X already exist","requestId":"R1","status":400}'']\<close>
  by (simp add: Split_def sampleErrorBody_def)

lemma Split_sample_message:
  \<open>Split ''Message: {"code":"ClusterNameAlreadyExist","message":"cluster name X already exist","requestId":"R1","status":400}'' '':'' =
     [''Message'', '' {"code"'', ''"ClusterNameAlreadyExist","message"'',
      ''"cluster name X already exist","requestId"'', ''"R1","status"'', ''400}'']\<close>
  by (simp add: Split_def)

lemma Split_sample_name: "Split ''ERROR: SDK.ServerError'' '': '' = [''ERROR'', ''SDK.ServerError'']"
  by (simp add: Split_def)

text \<open>
  C1. On the sample body the classifier is claimed to return an error whose code is
  exactly \<open>ClusterNameAlreadyExist\<close>. Splitting line five on every colon leaves the
  code token with the following key attached, so the code that is stored is
  \<open>ClusterNameAlreadyExist","message\<close> (and the message is cut from the request id);
  whatever \<open>IsJSON\<close> answers, no error with the code \<open>ClusterNameAlreadyExist\<close> is
  returned.
\<close>

theorem isErrResponse_sample_code_not_exact:
  \<open>isErrResponse isJSON sampleErrorBody =
     (if isJSON sampleErrorBody then Inr None
      else Inr (Some \<lparr>errorName = ''SDK.ServerError'',
                       errorCode = ''ClusterNameAlreadyExist","message'',
                       errorMessage = ''R1","status''\<rparr>))
   \<and> (\<nexists>e. isErrResponse isJSON sampleErrorBody = Inr (Some e)
            \<and> errorCode e = ClusterNameAlreadyExist)\<close>
proof -
  have computed: \<open>isErrResponse isJSON sampleErrorBody =
     (if isJSON sampleErrorBody then Inr None
      else Inr (Some \<lparr>errorName = ''SDK.ServerError'',
                       errorCode = ''ClusterNameAlreadyExist","message'',
                       errorMessage = ''R1","status''\<rparr>))\<close>
    by (simp add: isErrResponse_def Split_sample_lines Split_sample_message
        Split_sample_name index_def stripEnds_def)
  show ?thesis
    unfolding computed by (simp add: ClusterNameAlreadyExist_def)
qed

subsection \<open>The body of the creation request\<close>

text \<open>
  C9. The creation body is claimed to be the well-formed JSON object of the
  interface, with a member \<open>"vpc_id":"<v>"\<close> when a VPC is configured. For the
  cluster \<open>tenant-a\<close> and the VPC \<open>vpc-1\<close> the body that is built opens a string
  before a line break, leaves the VPC id unquoted and puts no comma after it.
  Without a VPC the body is the object of the interface, with no such member.
\<close>

theorem creationBody_with_vpc_malformed:
  \<open>creationBody ''tenant-a'' sampleVpcCfg =
     ''{\<newline>"cluster_type": "Ask",\<newline>"name": "tenant-a", \<newline>"region_id": "cn-beijing",\<newline>"zoneid": "cn-beijing-a", "\<newline>vpc_id": vpc-1\<newline>\<newline>"nat_gateway": true,\<newline>"private_zone": true\<newline>}''
   \<and> creationBody ''tenant-a'' sampleCfg =
     ''{\<newline>"cluster_type": "Ask",\<newline>"name": "tenant-a", \<newline>"region_id": "cn-beijing",\<newline>"zoneid": "cn-beijing-a", \<newline>"nat_gateway": true,\<newline>"private_zone": true\<newline>}''\<close>
  by (simp add: creationBody_def sampleVpcCfg_def sampleCfg_def)

subsection \<open>Reading the state of a cluster\<close>

lemma readASKState_decoded:
  assumes "IsJSON env content" and "UnmarshalObject env content = Inr clsInfo"
  shows "readASKState env cid (Inr content) = Inr st \<longleftrightarrow>
           clsInfo ''cluster_id'' = Some (JString cid) \<and> clsInfo ''state'' = Some (JString st)"
  using assms
  by (auto simp: readASKState_def isErrResponse_def split: option.splits json.splits)

text \<open>
  C10. When the state request succeeds and its body is well-formed (it is JSON and
  decodes to an object), \<open>getASKState\<close> returns a state exactly when the object's
  \<open>cluster_id\<close> is the string that was asked for and its \<open>state\<close> is a string, and
  the state returned is that one; in every other case it returns an error.
\<close>

theorem getASKState_only_requested_cluster:
  assumes "backend env (trace w) (now w) cli (stateRequest cid region) = (took, Inr content)"
    and "IsJSON env content"
    and "UnmarshalObject env content = Inr clsInfo"
  shows "(\<forall>st. fst (getASKState env cli cid region w) = Inr st \<longleftrightarrow>
            clsInfo ''cluster_id'' = Some (JString cid) \<and> clsInfo ''state'' = Some (JString st))
       \<and> (clsInfo ''cluster_id'' \<noteq> Some (JString cid) \<or> (\<nexists>st. clsInfo ''state'' = Some (JString st))
            \<longrightarrow> (\<exists>err. fst (getASKState env cli cid region w) = Inl err))"
proof -
  have call: "fst (getASKState env cli cid region w) = readASKState env cid (Inr content)"
    using ProcessCommonRequest_answer [OF assms(1)] by (simp add: getASKState_def)
  have iff: "\<And>st. readASKState env cid (Inr content) = Inr st \<longleftrightarrow>
           clsInfo ''cluster_id'' = Some (JString cid) \<and> clsInfo ''state'' = Some (JString st)"
    using readASKState_decoded [OF assms(2,3)] .
  show ?thesis
    unfolding call using iff
    by (cases "readASKState env cid (Inr content)") auto
qed

theorem getASKState_only_requested_cluster_witness:
  "backend conflictEnv
     (trace world0) (now world0) sampleClient (stateRequest ''cls-123'' ''cn-beijing'')
     = (100000000, Inr (stateBody ''running''))
   \<and> IsJSON conflictEnv
         (stateBody ''running'')
   \<and> UnmarshalObject conflictEnv
         (stateBody ''running'')
       = Inr [''cluster_id'' \<mapsto> JString ''cls-123'', ''state'' \<mapsto> JString ''running'']
   \<and> fst (getASKState conflictEnv
          sampleClient ''cls-123'' ''cn-beijing'' world0) = Inr ''running''"
proof -
  let ?env = "conflictEnv"
  have h1: "backend ?env (trace world0) (now world0) sampleClient
              (stateRequest ''cls-123'' ''cn-beijing'') = (100000000, Inr (stateBody ''running''))"
    by (simp add: conflictEnv_def sampleEnv_def sampleBackend_def stateRequest_def
        NewCommonRequest_def)
  have h2: "IsJSON ?env (stateBody ''running'')"
    by (simp add: conflictEnv_def sampleEnv_def sampleIsJSON_def)
  have h3: "UnmarshalObject ?env (stateBody ''running'')
              = Inr [''cluster_id'' \<mapsto> JString ''cls-123'', ''state'' \<mapsto> JString ''running'']"
    by (simp add: conflictEnv_def sampleEnv_def sampleUnmarshalObject_def stateBody_def)
  have "fst (getASKState ?env sampleClient ''cls-123'' ''cn-beijing'' world0) = Inr ''running''"
    using getASKState_only_requested_cluster [OF h1 h2 h3] by simp
  with h1 h2 h3 show ?thesis by blast
qed

subsection \<open>The operating namespace\<close>

text \<open>
  C8. Whenever the pod's namespace cannot be looked up, the access-key secret and
  the ASK configuration are both read from the namespace \<open>vc-manager\<close>: each
  function does exactly what it does when the lookup answers \<open>vc-manager\<close>, and
  the one read it issues names that namespace.
\<close>

theorem namespace_fallback:
  assumes "GetPodNsFromInside env (trace w) = Inl m"
    and "GetPodNsFromInside env (trace w') = Inl m'"
  shows "getAliyunAKPair env w
           = getAliyunAKPair (env\<lparr>GetPodNsFromInside := \<lambda>tr. Inr ''vc-manager''\<rparr>) w
       \<and> trace (snd (getAliyunAKPair env w))
           = trace w @ [KubeGet SecretKind ''vc-manager'' ''aliyun-accesskey'']
       \<and> getASKConfigs env w'
           = getASKConfigs (env\<lparr>GetPodNsFromInside := \<lambda>tr. Inr ''vc-manager''\<rparr>) w'
       \<and> trace (snd (getASKConfigs env w'))
           = trace w' @ [KubeGet ConfigMapKind ''vc-manager'' ''aliyun-ask-config'']"
proof -
  have a: "getAliyunAKPair env w
           = getAliyunAKPair (env\<lparr>GetPodNsFromInside := \<lambda>tr. Inr ''vc-manager''\<rparr>) w"
    using assms(1) by (simp add: getAliyunAKPair_def mpaGet_def DefaultVcManagerNs_def)
  have b: "trace (snd (getAliyunAKPair env w))
           = trace w @ [KubeGet SecretKind ''vc-manager'' ''aliyun-accesskey'']"
    using assms(1)
    by (simp add: getAliyunAKPair_def mpaGet_def DefaultVcManagerNs_def AliyunAkSrt_def Let_def
        split: prod.splits)
  have c: "getASKConfigs env w'
           = getASKConfigs (env\<lparr>GetPodNsFromInside := \<lambda>tr. Inr ''vc-manager''\<rparr>) w'"
    using assms(2) by (simp add: getASKConfigs_def mpaGet_def DefaultVcManagerNs_def)
  have d: "trace (snd (getASKConfigs env w'))
           = trace w' @ [KubeGet ConfigMapKind ''vc-manager'' ''aliyun-ask-config'']"
    using assms(2)
    by (simp add: getASKConfigs_def mpaGet_def DefaultVcManagerNs_def AliyunASKConfigMap_def
        Let_def split: prod.splits option.splits)
  from a b c d show ?thesis by blast
qed

theorem namespace_fallback_witness:
  "GetPodNsFromInside happyEnv (trace world0) = Inl ''no such file or directory''
   \<and> fst (getAliyunAKPair happyEnv world0) = (''id'', ''secret'', None)
   \<and> trace (snd (getAliyunAKPair happyEnv world0))
       = [KubeGet SecretKind ''vc-manager'' ''aliyun-accesskey'']
   \<and> fst (getASKConfigs happyEnv world0) = (sampleCfg, None)
   \<and> trace (snd (getASKConfigs happyEnv world0))
       = [KubeGet ConfigMapKind ''vc-manager'' ''aliyun-ask-config'']"
proof -
  have h: "GetPodNsFromInside happyEnv (trace world0) = Inl ''no such file or directory''"
    by (simp add: happyEnv_def sampleEnv_def)
  have t: "trace world0 = []"
    by (simp add: world0_def)
  have keys: "fst (getAliyunAKPair happyEnv world0) = (''id'', ''secret'', None)"
    by (simp add: getAliyunAKPair_def mpaGet_def happyEnv_def sampleEnv_def sampleKubeGet_def
        DefaultVcManagerNs_def AliyunAkSrt_def AliyunAKIDName_def AliyunAKSecretName_def Let_def)
  have cfg: "fst (getASKConfigs happyEnv world0) = (sampleCfg, None)"
    by (simp add: getASKConfigs_def mpaGet_def happyEnv_def sampleEnv_def sampleKubeGet_def
        DefaultVcManagerNs_def AliyunASKConfigMap_def AliyunASKCfgMpRegionID_def
        AliyunASKCfgMpZoneID_def AliyunASKCfgMpVPCID_def sampleCfg_def Let_def)
  from namespace_fallback [OF h h]
  have ta: "trace (snd (getAliyunAKPair happyEnv world0))
              = trace world0 @ [KubeGet SecretKind ''vc-manager'' ''aliyun-accesskey'']"
    and tc: "trace (snd (getASKConfigs happyEnv world0))
              = trace world0 @ [KubeGet ConfigMapKind ''vc-manager'' ''aliyun-ask-config'']"
    by blast+
  show ?thesis
    using h keys cfg ta tc unfolding t by simp
qed

subsection \<open>Creation when the name is taken\<close>

lemma getClusterIDByName_world:
  assumes "backend env (trace w) (now w) cli (listRequest region) = (took, answer)"
  shows "snd (getClusterIDByName env cli clusterName region w) =
           afterCall w cli (listRequest region) took (received answer)"
  using ProcessCommonRequest_answer [OF assms]
  by (simp add: getClusterIDByName_def split: sum.splits)

text \<open>
  C3. When the answer to the creation request is classified with the code
  \<open>ClusterNameAlreadyExist\<close>, \<open>sendCreationRequest\<close> returns what
  \<open>getClusterIDByName\<close> returns for the same name, and the only request after the
  creation is that one listing: no second creation is sent. An answer classified
  with any other code is returned as that error, and a transport error is returned
  as it is, both with the creation request as the last thing done.
\<close>

theorem sendCreationRequest_name_conflict:
  assumes "backend env (trace w) (now w) cli (creationRequest clusterName askCfg) = (took, answer)"
  shows "(\<forall>content sdkErr.
            answer = Inr content \<and> isErrResponse (IsJSON env) content = Inr (Some sdkErr)
            \<and> errorCode sdkErr = ClusterNameAlreadyExist \<longrightarrow>
              sendCreationRequest env cli clusterName askCfg w =
                getClusterIDByName env cli clusterName (regionID askCfg)
                  (afterCall w cli (creationRequest clusterName askCfg) took (Inr content))
              \<and> (\<exists>took' res'.
                    trace (snd (sendCreationRequest env cli clusterName askCfg w)) =
                      trace w @ [HttpCall (now w) cli (creationRequest clusterName askCfg) took
                                   (Inr content),
                                 HttpCall (now w + took) cli (listRequest (regionID askCfg)) took'
                                   res']))
       \<and> (\<forall>content sdkErr.
            answer = Inr content \<and> isErrResponse (IsJSON env) content = Inr (Some sdkErr)
            \<and> errorCode sdkErr \<noteq> ClusterNameAlreadyExist \<longrightarrow>
              sendCreationRequest env cli clusterName askCfg w =
                (Inl (SDK sdkErr),
                 afterCall w cli (creationRequest clusterName askCfg) took (Inr content)))
       \<and> (\<forall>m. answer = Inl m \<longrightarrow>
              sendCreationRequest env cli clusterName askCfg w =
                (Inl (Transport m),
                 afterCall w cli (creationRequest clusterName askCfg) took (Inl (Transport m))))"
proof (intro conjI allI impI)
  fix content sdkErr
  assume h: "answer = Inr content \<and> isErrResponse (IsJSON env) content = Inr (Some sdkErr)
            \<and> errorCode sdkErr = ClusterNameAlreadyExist"
  let ?w1 = "afterCall w cli (creationRequest clusterName askCfg) took (Inr content)"
  from h ProcessCommonRequest_answer [OF assms]
  show eq: "sendCreationRequest env cli clusterName askCfg w =
          getClusterIDByName env cli clusterName (regionID askCfg) ?w1"
    by (simp add: sendCreationRequest_def split: prod.splits sum.splits)
  obtain took' answer' where
    b: "backend env (trace ?w1) (now ?w1) cli (listRequest (regionID askCfg)) = (took', answer')"
    by (cases "backend env (trace ?w1) (now ?w1) cli (listRequest (regionID askCfg))")
  show "\<exists>took' res'.
          trace (snd (sendCreationRequest env cli clusterName askCfg w)) =
            trace w @ [HttpCall (now w) cli (creationRequest clusterName askCfg) took (Inr content),
                       HttpCall (now w + took) cli (listRequest (regionID askCfg)) took' res']"
    unfolding eq getClusterIDByName_world [OF b]
    by (simp add: afterCall_def)
next
  fix content sdkErr
  assume "answer = Inr content \<and> isErrResponse (IsJSON env) content = Inr (Some sdkErr)
            \<and> errorCode sdkErr \<noteq> ClusterNameAlreadyExist"
  with ProcessCommonRequest_answer [OF assms]
  show "sendCreationRequest env cli clusterName askCfg w =
          (Inl (SDK sdkErr), afterCall w cli (creationRequest clusterName askCfg) took (Inr content))"
    by (simp add: sendCreationRequest_def)
next
  fix m
  assume "answer = Inl m"
  with ProcessCommonRequest_answer [OF assms]
  show "sendCreationRequest env cli clusterName askCfg w =
          (Inl (Transport m),
           afterCall w cli (creationRequest clusterName askCfg) took (Inl (Transport m)))"
    by (simp add: sendCreationRequest_def)
qed

lemma Split_conflict_lines:
  \<open>Split conflictBody ''\<newline>'' =
     [''ERROR: SDK.ServerError'', ''ErrorCode:'', ''Recommend:'', ''RequestId:'',
      ''Message: code:"ClusterNameAlreadyExist":message:"cluster name tenant-a already exist"'']\<close>
  by (simp add: Split_def conflictBody_def)

lemma Split_conflict_message:
  \<open>Split ''Message: code:"ClusterNameAlreadyExist":message:"cluster name tenant-a already exist"'' '':'' =
     [''Message'', '' code'', ''"ClusterNameAlreadyExist"'', ''message'',
      ''"cluster name tenant-a already exist"'']\<close>
  by (simp add: Split_def)

lemma conflictBody_not_JSON: "\<not> sampleIsJSON conflictBody"
  by (simp add: sampleIsJSON_def conflictBody_def createdBody_def kubeconfigBody_def stateBody_def)

lemma isErrResponse_conflictBody:
  "isErrResponse sampleIsJSON conflictBody =
     Inr (Some \<lparr>errorName = ''SDK.ServerError'', errorCode = ''ClusterNameAlreadyExist'',
                 errorMessage = ''cluster name tenant-a already exist''\<rparr>)"
  by (simp add: isErrResponse_def conflictBody_not_JSON Split_conflict_lines
      Split_conflict_message Split_sample_name index_def stripEnds_def)

theorem sendCreationRequest_name_conflict_witness:
  "backend conflictEnv (trace world0) (now world0) sampleClient
     (creationRequest ''tenant-a'' sampleCfg) = (100000000, Inr conflictBody)
   \<and> isErrResponse (IsJSON conflictEnv) conflictBody =
       Inr (Some \<lparr>errorName = ''SDK.ServerError'', errorCode = ClusterNameAlreadyExist,
                   errorMessage = ''cluster name tenant-a already exist''\<rparr>)
   \<and> fst (sendCreationRequest conflictEnv sampleClient ''tenant-a'' sampleCfg world0)
       = Inr ''cls-123''"
proof -
  let ?e = "\<lparr>errorName = ''SDK.ServerError'', errorCode = ClusterNameAlreadyExist,
              errorMessage = ''cluster name tenant-a already exist''\<rparr>"
  let ?w1 = "afterCall world0 sampleClient (creationRequest ''tenant-a'' sampleCfg) 100000000
               (Inr conflictBody)"
  have h1: "backend conflictEnv (trace world0) (now world0) sampleClient
              (creationRequest ''tenant-a'' sampleCfg) = (100000000, Inr conflictBody)"
    by (simp add: conflictEnv_def sampleEnv_def sampleBackend_def creationRequest_def
        NewCommonRequest_def)
  have h2: "isErrResponse (IsJSON conflictEnv) conflictBody = Inr (Some ?e)"
    by (simp add: conflictEnv_def sampleEnv_def isErrResponse_conflictBody
        ClusterNameAlreadyExist_def)
  have lookup: "fst (getClusterIDByName conflictEnv sampleClient ''tenant-a''
                      (regionID sampleCfg) ?w1) = Inr ''cls-123''"
    by (simp add: getClusterIDByName_def ProcessCommonRequest_def conflictEnv_def sampleEnv_def
        sampleBackend_def listRequest_def NewCommonRequest_def sampleUnmarshalObjectList_def
        Let_def)
  from sendCreationRequest_name_conflict [OF h1] h2
  have "sendCreationRequest conflictEnv sampleClient ''tenant-a'' sampleCfg world0 =
          getClusterIDByName conflictEnv sampleClient ''tenant-a'' (regionID sampleCfg) ?w1"
    by simp
  with lookup h1 h2 show ?thesis by simp
qed

subsection \<open>The polling loops\<close>

lemma getASKState_answer:
  assumes "backend env (trace w) (now w) cli (stateRequest cid region) = (took, answer)"
  shows "getASKState env cli cid region w =
           (readASKState env cid (received answer),
            afterCall w cli (stateRequest cid region) took (received answer))"
  using ProcessCommonRequest_answer [OF assms] by (simp add: getASKState_def)

lemma getASKState_cases:
  obtains took answer where
    "backend env (trace w) (now w) cli (stateRequest cid region) = (took, answer)"
    "getASKState env cli cid region w =
           (readASKState env cid (received answer),
            afterCall w cli (stateRequest cid region) took (received answer))"
  using getASKState_answer by (cases "backend env (trace w) (now w) cli (stateRequest cid region)") blast

lemma DeleteVirtualCluster_poll_never_deleting:
  assumes "\<forall>tr t. \<exists>st. readASKState env cid
                      (received (snd (backend env tr t cli (stateRequest cid region)))) = Inr st
                    \<and> st \<noteq> ''deleting''"
  shows "fst (DeleteVirtualCluster_poll env cli vcName cid region deadline w)
           = Some (Msg (''Delete ASK('' @ vcName @ '') timeout''))"
  using assms
proof (induction env cli vcName cid region deadline w rule: DeleteVirtualCluster_poll.induct)
  case (1 env cli vcName cid region deadline w)
  obtain tick w1 where sel: "selectTimers env (2 * Second) deadline w = (tick, w1)"
    by (cases "selectTimers env (2 * Second) deadline w")
  show ?case
  proof (cases tick)
    case False
    with sel show ?thesis
      by (simp add: DeleteVirtualCluster_poll.simps [of env cli vcName cid region deadline w])
  next
    case True
    obtain took answer where
      b: "backend env (trace w1) (now w1) cli (stateRequest cid region) = (took, answer)"
      and g: "getASKState env cli cid region w1 =
           (readASKState env cid (received answer),
            afterCall w1 cli (stateRequest cid region) took (received answer))"
      by (rule getASKState_cases)
    let ?w2 = "afterCall w1 cli (stateRequest cid region) took (received answer)"
    from "1.prems" have "\<exists>st. readASKState env cid
                      (received (snd (backend env (trace w1) (now w1) cli (stateRequest cid region))))
                        = Inr st \<and> st \<noteq> ''deleting''"
      by blast
    then obtain st where
      st: "readASKState env cid (received answer) = Inr st" "st \<noteq> ''deleting''"
      unfolding b by auto
    have g': "(Inr st, ?w2) = getASKState env cli cid region w1"
      unfolding g st(1) ..
    have ih: "fst (DeleteVirtualCluster_poll env cli vcName cid region deadline ?w2)
           = Some (Msg (''Delete ASK('' @ vcName @ '') timeout''))"
      by (rule "1.IH" [OF refl sel [symmetric] True g' refl st(2) "1.prems"])
    show ?thesis
      unfolding DeleteVirtualCluster_poll.simps [of env cli vcName cid region deadline w]
      using sel True g st ih by simp
  qed
qed


lemma isErrResponse_Inl:
  assumes "isErrResponse isJSON body = Inl e"
  shows "e = Panic"
  using assms
  by (auto simp: isErrResponse_def index_def stripEnds_def Let_def split: if_splits sum.splits)

lemma readASKState_not_creation_timeout:
  "readASKState env cid (received answer) \<noteq> Inl (Msg (''creating cluster('' @ x @ '') timeout''))"
proof (cases answer)
  case (Inl m)
  then show ?thesis by (simp add: readASKState_def)
next
  case (Inr content)
  show ?thesis
  proof (cases "isErrResponse (IsJSON env) content")
    case (Inl e)
    with Inr isErrResponse_Inl [OF Inl] show ?thesis
      by (simp add: readASKState_def)
  next
    case inr: (Inr errRep)
    with Inr show ?thesis
      by (auto simp: readASKState_def split: sum.splits option.splits json.splits if_splits)
  qed
qed

lemma CreateVirtualCluster_poll_never_running:
  assumes "\<forall>tr t. \<exists>st. readASKState env cid
                      (received (snd (backend env tr t cli (stateRequest cid region)))) = Inr st
                    \<and> st \<noteq> ''running''"
  shows "fst (CreateVirtualCluster_poll env cli cid region deadline w)
           = Some (Msg (''creating cluster('' @ cid @ '') timeout''))"
  using assms
proof (induction env cli cid region deadline w rule: CreateVirtualCluster_poll.induct)
  case (1 env cli cid region deadline w)
  obtain tick w1 where sel: "selectTimers env (10 * Second) deadline w = (tick, w1)"
    by (cases "selectTimers env (10 * Second) deadline w")
  show ?case
  proof (cases tick)
    case False
    with sel show ?thesis
      by (simp add: CreateVirtualCluster_poll.simps [of env cli cid region deadline w])
  next
    case True
    obtain took answer where
      b: "backend env (trace w1) (now w1) cli (stateRequest cid region) = (took, answer)"
      and g: "getASKState env cli cid region w1 =
           (readASKState env cid (received answer),
            afterCall w1 cli (stateRequest cid region) took (received answer))"
      by (rule getASKState_cases)
    let ?w2 = "afterCall w1 cli (stateRequest cid region) took (received answer)"
    from "1.prems" have "\<exists>st. readASKState env cid
                      (received (snd (backend env (trace w1) (now w1) cli (stateRequest cid region))))
                        = Inr st \<and> st \<noteq> ''running''"
      by blast
    then obtain st where
      st: "readASKState env cid (received answer) = Inr st" "st \<noteq> ''running''"
      unfolding b by auto
    have g': "(Inr st, ?w2) = getASKState env cli cid region w1"
      unfolding g st(1) ..
    have ih: "fst (CreateVirtualCluster_poll env cli cid region deadline ?w2)
           = Some (Msg (''creating cluster('' @ cid @ '') timeout''))"
      by (rule "1.IH" [OF refl sel [symmetric] True g' refl st(2) "1.prems"])
    show ?thesis
      unfolding CreateVirtualCluster_poll.simps [of env cli cid region deadline w]
      using sel True g st ih by simp
  qed
qed

lemma CreateVirtualCluster_poll_run:
  assumes "CreateVirtualCluster_poll env cli cid region deadline w = (r, w')"
  shows "\<exists>polls. trace w' = trace w @ polls
           \<and> pollsEvery (10 * Second) cli (stateRequest cid region) (now w) polls
           \<and> (r = Some (Msg (''creating cluster('' @ cid @ '') timeout'')) \<longrightarrow> deadline \<le> now w')
           \<and> (r = None \<longrightarrow> (\<exists>p\<in>set polls. probeReturned env cli cid region p (Inr ''running'')))"
  using assms
proof (induction env cli cid region deadline w arbitrary: r w'
       rule: CreateVirtualCluster_poll.induct)
  case (1 env cli cid region deadline w)
  let ?req = "stateRequest cid region"
  let ?timeout = "Msg (''creating cluster('' @ cid @ '') timeout'')"
  obtain tick w1 where sel: "selectTimers env (10 * Second) deadline w = (tick, w1)"
    by (cases "selectTimers env (10 * Second) deadline w")
  show ?case
  proof (cases tick)
    case False
    with sel "1.prems" have r: "r = Some ?timeout" and w': "w' = w1"
      by (simp_all add: CreateVirtualCluster_poll.simps [of env cli cid region deadline w])
    from sel False have "trace w1 = trace w" "deadline \<le> now w1"
      by (auto simp: selectTimers_def split: if_splits)
    with r w' have "trace w' = trace w @ [] \<and> pollsEvery (10 * Second) cli ?req (now w) []
           \<and> (r = Some ?timeout \<longrightarrow> deadline \<le> now w')
           \<and> (r = None \<longrightarrow> (\<exists>p\<in>set []. probeReturned env cli cid region p (Inr ''running'')))"
      by simp
    then show ?thesis by blast
  next
    case True
    with sel have w1: "trace w1 = trace w" "now w1 = now w + 10 * Second"
      by (auto simp: selectTimers_def split: if_splits)
    obtain took answer where
      b: "backend env (trace w1) (now w1) cli ?req = (took, answer)"
      and g: "getASKState env cli cid region w1 =
           (readASKState env cid (received answer),
            afterCall w1 cli ?req took (received answer))"
      by (rule getASKState_cases)
    let ?w2 = "afterCall w1 cli ?req took (received answer)"
    let ?ev = "HttpCall (now w + 10 * Second) cli ?req took (received answer)"
    have w2: "trace ?w2 = trace w @ [?ev]" "now ?w2 = now w + 10 * Second + took"
      using w1 by (simp_all add: afterCall_def)
    show ?thesis
    proof (cases "readASKState env cid (received answer)")
      case (Inl err)
      with sel True g "1.prems" have r: "r = Some err" and w': "w' = ?w2"
        by (simp_all add: CreateVirtualCluster_poll.simps [of env cli cid region deadline w])
      from Inl have "err \<noteq> ?timeout"
        using readASKState_not_creation_timeout [of env cid answer cid] by auto
      with r w' w2 have "trace w' = trace w @ [?ev]
           \<and> pollsEvery (10 * Second) cli ?req (now w) [?ev]
           \<and> (r = Some ?timeout \<longrightarrow> deadline \<le> now w')
           \<and> (r = None \<longrightarrow> (\<exists>p\<in>set [?ev]. probeReturned env cli cid region p (Inr ''running'')))"
        by simp
      then show ?thesis by blast
    next
      case (Inr st)
      show ?thesis
      proof (cases "st = ''running''")
        case True
        with Inr sel \<open>tick\<close> g "1.prems" have r: "r = None" and w': "w' = ?w2"
          by (simp_all add: CreateVirtualCluster_poll.simps [of env cli cid region deadline w])
        from Inr True have "probeReturned env cli cid region ?ev (Inr ''running'')"
          by simp
        with r w' w2 have "trace w' = trace w @ [?ev]
           \<and> pollsEvery (10 * Second) cli ?req (now w) [?ev]
           \<and> (r = Some ?timeout \<longrightarrow> deadline \<le> now w')
           \<and> (r = None \<longrightarrow> (\<exists>p\<in>set [?ev]. probeReturned env cli cid region p (Inr ''running'')))"
          by simp
        then show ?thesis by blast
      next
        case False
        have g': "(Inr st, ?w2) = getASKState env cli cid region w1"
          unfolding g Inr ..
        from Inr False sel \<open>tick\<close> g "1.prems"
        have rec: "CreateVirtualCluster_poll env cli cid region deadline ?w2 = (r, w')"
          by (simp add: CreateVirtualCluster_poll.simps [of env cli cid region deadline w])
        from "1.IH" [OF refl sel [symmetric] \<open>tick\<close> g' refl False rec]
        obtain polls where p: "trace w' = trace ?w2 @ polls"
            "pollsEvery (10 * Second) cli ?req (now ?w2) polls"
            "r = Some ?timeout \<longrightarrow> deadline \<le> now w'"
            "r = None \<longrightarrow> (\<exists>p\<in>set polls. probeReturned env cli cid region p (Inr ''running''))"
          by blast
        from p w2 have "trace w' = trace w @ (?ev # polls)
           \<and> pollsEvery (10 * Second) cli ?req (now w) (?ev # polls)
           \<and> (r = Some ?timeout \<longrightarrow> deadline \<le> now w')
           \<and> (r = None \<longrightarrow> (\<exists>p\<in>set (?ev # polls). probeReturned env cli cid region p (Inr ''running'')))"
          by simp
        then show ?thesis by blast
      qed
    qed
  qed
qed

subsection \<open>The sample environment\<close>

lemma sample_getAliyunAKPair:
  "getAliyunAKPair (sampleEnv b) w =
     ((''id'', ''secret'', None),
      w\<lparr>trace := trace w @ [KubeGet SecretKind ''vc-manager'' ''aliyun-accesskey'']\<rparr>)"
  by (simp add: getAliyunAKPair_def mpaGet_def sampleEnv_def sampleKubeGet_def
      DefaultVcManagerNs_def AliyunAkSrt_def AliyunAKIDName_def AliyunAKSecretName_def Let_def)

lemma sample_getASKConfigs:
  "getASKConfigs (sampleEnv b) w =
     ((sampleCfg, None),
      w\<lparr>trace := trace w @ [KubeGet ConfigMapKind ''vc-manager'' ''aliyun-ask-config'']\<rparr>)"
  by (simp add: getASKConfigs_def mpaGet_def sampleEnv_def sampleKubeGet_def
      DefaultVcManagerNs_def AliyunASKConfigMap_def AliyunASKCfgMpRegionID_def
      AliyunASKCfgMpZoneID_def AliyunASKCfgMpVPCID_def sampleCfg_def Let_def)

lemma sample_backend [simp]:
  "backend (sampleEnv b) = b"
  by (simp add: sampleEnv_def)

lemma sample_list_call:
  "sampleBackend p d s tr t cli (listRequest region) = (100000000, Inr listBody)"
  by (simp add: sampleBackend_def listRequest_def NewCommonRequest_def)

lemma sample_creation_call:
  "sampleBackend p d s tr t cli (creationRequest name cfg) = (100000000, Inr p)"
  by (simp add: sampleBackend_def creationRequest_def NewCommonRequest_def)

lemma sample_deletion_call:
  "sampleBackend p d s tr t cli (deletionRequest cid region) = (100000000, d)"
  by (simp add: sampleBackend_def deletionRequest_def NewCommonRequest_def)

lemma sample_state_call:
  "sampleBackend p d s tr t cli (stateRequest ''cls-123'' region) = (100000000, Inr (s t))"
  by (simp add: sampleBackend_def stateRequest_def NewCommonRequest_def)

lemma sample_kubeconfig_call:
  "sampleBackend p d s tr t cli (kubeConfigRequest ''cls-123'' region)
     = (100000000, Inr kubeconfigBody)"
  by (simp add: sampleBackend_def kubeConfigRequest_def NewCommonRequest_def)

lemma sample_getClusterIDByName:
  "getClusterIDByName (sampleEnv (sampleBackend p d s)) cli ''tenant-a'' region w =
     (Inr ''cls-123'', afterCall w cli (listRequest region) 100000000 (Inr listBody))"
  by (simp add: getClusterIDByName_def ProcessCommonRequest_def sample_list_call)
     (simp add: sampleEnv_def sampleUnmarshalObjectList_def)

lemma createdBody_JSON: "sampleIsJSON createdBody"
  by (simp add: sampleIsJSON_def)

lemma sample_sendCreationRequest:
  "sendCreationRequest (sampleEnv (sampleBackend createdBody d s)) cli name cfg w =
     (Inr ''cls-123'', afterCall w cli (creationRequest name cfg) 100000000 (Inr createdBody))"
  by (simp add: sendCreationRequest_def ProcessCommonRequest_def sample_creation_call)
     (simp add: sampleEnv_def isErrResponse_def createdBody_JSON sampleUnmarshalStringMap_def)

lemma sample_NewClientWithAccessKey:
  "NewClientWithAccessKey (sampleEnv b) ''cn-beijing'' ''id'' ''secret'' = Inr sampleClient"
  by (simp add: sampleEnv_def sampleClient_def)

lemma sample_fields [simp]:
  "Name sampleVc = ''tenant-a''" "regionID sampleCfg = ''cn-beijing''"
  by (simp_all add: sampleVc_def sampleCfg_def)

lemma sample_CreateVirtualCluster_request:
  "CreateVirtualCluster_request (sampleEnv (sampleBackend createdBody d s)) sampleVc w =
     (Inr (sampleClient, sampleCfg, ''cls-123''),
      afterCall
        (w\<lparr>trace := trace w @ [KubeGet SecretKind ''vc-manager'' ''aliyun-accesskey'',
                                KubeGet ConfigMapKind ''vc-manager'' ''aliyun-ask-config'']\<rparr>)
        sampleClient (creationRequest ''tenant-a'' sampleCfg) 100000000 (Inr createdBody))"
  by (simp add: CreateVirtualCluster_request_def sample_getAliyunAKPair sample_getASKConfigs
      sample_NewClientWithAccessKey sample_sendCreationRequest)

lemma sample_DeleteVirtualCluster_resolve:
  "DeleteVirtualCluster_resolve (sampleEnv (sampleBackend p d s)) sampleVc w =
     (Inr (sampleClient, sampleCfg, ''cls-123''),
      afterCall
        (w\<lparr>trace := trace w @ [KubeGet SecretKind ''vc-manager'' ''aliyun-accesskey'',
                                KubeGet ConfigMapKind ''vc-manager'' ''aliyun-ask-config'']\<rparr>)
        sampleClient (listRequest ''cn-beijing'') 100000000 (Inr listBody))"
  by (simp add: DeleteVirtualCluster_resolve_def sample_getAliyunAKPair sample_getASKConfigs
      sample_NewClientWithAccessKey sample_getClusterIDByName)

lemma sample_sendDeletionRequest:
  "sendDeletionRequest (sampleEnv (sampleBackend p d s)) cli cid region w =
     (case d of Inl m \<Rightarrow> Some (Transport m) | Inr content \<Rightarrow> None,
      afterCall w cli (deletionRequest cid region) 100000000 (received d))"
  by (cases d) (simp_all add: sendDeletionRequest_def ProcessCommonRequest_def sample_deletion_call)

subsection \<open>Error bodies in answer to a state probe\<close>

lemma Split_notFound_lines:
  \<open>Split notFoundBody ''\<newline>'' =
     [''ERROR: SDK.ServerError'', ''ErrorCode:'', ''Recommend:'', ''RequestId:'',
      ''Message: {"code":"ErrorClusterNotFound","message":"cluster cls-123 not found","requestId":"R2","status":404}'']\<close>
  by (simp add: Split_def notFoundBody_def)

lemma Split_notFound_message:
  \<open>Split ''Message: {"code":"ErrorClusterNotFound","message":"cluster cls-123 not found","requestId":"R2","status":404}'' '':'' =
     [''Message'', '' {"code"'', ''"ErrorClusterNotFound","message"'',
      ''"cluster cls-123 not found","requestId"'', ''"R2","status"'', ''404}'']\<close>
  by (simp add: Split_def)

lemma notFoundBody_not_JSON: "\<not> sampleIsJSON notFoundBody"
  by (simp add: sampleIsJSON_def notFoundBody_def createdBody_def kubeconfigBody_def stateBody_def)

lemma isErrResponse_notFoundBody:
  \<open>isErrResponse sampleIsJSON notFoundBody =
     Inr (Some \<lparr>errorName = ''SDK.ServerError'',
                 errorCode = ''ErrorClusterNotFound","message'',
                 errorMessage = ''R2","status''\<rparr>)\<close>
  by (simp add: isErrResponse_def notFoundBody_not_JSON Split_notFound_lines
      Split_notFound_message Split_sample_name index_def stripEnds_def)

lemma Split_bareNotFound_lines:
  \<open>Split bareNotFoundBody ''\<newline>'' =
     [''ERROR: SDK.ServerError'', ''ErrorCode:'', ''Recommend:'', ''RequestId:'',
      ''Message: code:"ErrorClusterNotFound":message:"cluster cls-123 not found"'']\<close>
  by (simp add: Split_def bareNotFoundBody_def)

lemma Split_bareNotFound_message:
  \<open>Split ''Message: code:"ErrorClusterNotFound":message:"cluster cls-123 not found"'' '':'' =
     [''Message'', '' code'', ''"ErrorClusterNotFound"'', ''message'',
      ''"cluster cls-123 not found"'']\<close>
  by (simp add: Split_def)

lemma bareNotFoundBody_not_JSON: "\<not> sampleIsJSON bareNotFoundBody"
  by (simp add: sampleIsJSON_def bareNotFoundBody_def createdBody_def kubeconfigBody_def
      stateBody_def)

lemma isErrResponse_bareNotFoundBody:
  "isErrResponse sampleIsJSON bareNotFoundBody =
     Inr (Some \<lparr>errorName = ''SDK.ServerError'', errorCode = ''ErrorClusterNotFound'',
                 errorMessage = ''cluster cls-123 not found''\<rparr>)"
  by (simp add: isErrResponse_def bareNotFoundBody_not_JSON Split_bareNotFound_lines
      Split_bareNotFound_message Split_sample_name index_def stripEnds_def)

lemma sample_IsJSON [simp]: "IsJSON (sampleEnv b) = sampleIsJSON"
  by (simp add: sampleEnv_def)

lemma readASKState_error_body:
  assumes "isErrResponse (IsJSON env) content = Inr (Some e)"
  shows "readASKState env cid (Inr content) = Inr []"
  using assms by (simp add: readASKState_def)

lemma sample_DeleteVirtualCluster_error_probes:
  assumes "\<And>t. isErrResponse sampleIsJSON (s t) = Inr (Some (e t))"
  shows "fst (DeleteVirtualCluster (sampleEnv (sampleBackend p (Inr c) s)) sampleVc w)
           = Some (Msg ''Delete ASK(tenant-a) timeout'')"
proof -
  let ?env = "sampleEnv (sampleBackend p (Inr c) s)"
  have probes: "\<forall>tr t. \<exists>st. readASKState ?env ''cls-123''
                      (received (snd (backend ?env tr t sampleClient
                         (stateRequest ''cls-123'' ''cn-beijing'')))) = Inr st
                    \<and> st \<noteq> ''deleting''"
    using assms by (simp add: sample_state_call readASKState_error_body)
  show ?thesis
    using DeleteVirtualCluster_poll_never_deleting [OF probes, of "''tenant-a''"]
    by (simp add: DeleteVirtualCluster_def sample_DeleteVirtualCluster_resolve
        sample_sendDeletionRequest)
qed

text \<open>
  C2. A state probe that is answered with a classified \<open>ErrorClusterNotFound\<close> is
  claimed to end \<open>DeleteVirtualCluster\<close> without an error. \<open>getASKState\<close>
  returns the empty state and no error for every error body, so the loop never sees
  the classified error: against a backend whose probes all answer that the cluster
  is not found, the deletion runs into its deadline and returns the timeout error.
  This holds for a body on which the classifier stores the bare code (an error the
  loop would tolerate) and for the body of the documented shape.
\<close>

theorem DeleteVirtualCluster_not_found_probe_times_out:
  \<open>isErrResponse (IsJSON bareNotFoundEnv) bareNotFoundBody =
     Inr (Some \<lparr>errorName = ''SDK.ServerError'', errorCode = ClusterNotFound,
                 errorMessage = ''cluster cls-123 not found''\<rparr>)
   \<and> clusterNotFoundErr (SDK \<lparr>errorName = ''SDK.ServerError'', errorCode = ClusterNotFound,
                               errorMessage = ''cluster cls-123 not found''\<rparr>)
   \<and> fst (DeleteVirtualCluster bareNotFoundEnv sampleVc world0)
       = Some (Msg ''Delete ASK(tenant-a) timeout'')
   \<and> fst (DeleteVirtualCluster notFoundEnv sampleVc world0)
       = Some (Msg ''Delete ASK(tenant-a) timeout'')\<close>
proof -
  have a: "isErrResponse (IsJSON bareNotFoundEnv) bareNotFoundBody =
     Inr (Some \<lparr>errorName = ''SDK.ServerError'', errorCode = ClusterNotFound,
                 errorMessage = ''cluster cls-123 not found''\<rparr>)"
    by (simp add: bareNotFoundEnv_def isErrResponse_bareNotFoundBody ClusterNotFound_def)
  have b: "clusterNotFoundErr (SDK \<lparr>errorName = ''SDK.ServerError'', errorCode = ClusterNotFound,
                               errorMessage = ''cluster cls-123 not found''\<rparr>)"
    by (simp add: clusterNotFoundErr_def)
  have c: "fst (DeleteVirtualCluster bareNotFoundEnv sampleVc world0)
       = Some (Msg ''Delete ASK(tenant-a) timeout'')"
    unfolding bareNotFoundEnv_def
    by (rule sample_DeleteVirtualCluster_error_probes) (rule isErrResponse_bareNotFoundBody)
  have d: "fst (DeleteVirtualCluster notFoundEnv sampleVc world0)
       = Some (Msg ''Delete ASK(tenant-a) timeout'')"
    unfolding notFoundEnv_def
    by (rule sample_DeleteVirtualCluster_error_probes) (rule isErrResponse_notFoundBody)
  from a b c d show ?thesis by blast
qed

text \<open>
  C6. Every error of a state probe, a classified backend error in the body
  included, is claimed to end the polling of \<open>CreateVirtualCluster\<close> at once. For
  an error body \<open>getASKState\<close> returns the empty state and no error, so the loop
  goes on: against a backend whose probes all answer with the error body, the
  creation returns the timeout error, 120 seconds or more after it started.
\<close>

theorem CreateVirtualCluster_error_body_keeps_polling:
  \<open>isErrResponse (IsJSON notFoundEnv) notFoundBody =
     Inr (Some \<lparr>errorName = ''SDK.ServerError'',
                 errorCode = ''ErrorClusterNotFound","message'',
                 errorMessage = ''R2","status''\<rparr>)
   \<and> fst (getASKState notFoundEnv sampleClient ''cls-123'' ''cn-beijing'' world0) = Inr []
   \<and> fst (CreateVirtualCluster notFoundEnv sampleVc world0)
       = Some (Msg ''creating cluster(cls-123) timeout'')
   \<and> 120 * Second \<le> now (snd (CreateVirtualCluster notFoundEnv sampleVc world0))\<close>
proof -
  let ?env = "sampleEnv (sampleBackend createdBody (Inr []) (\<lambda>t. notFoundBody))"
  have a: \<open>isErrResponse (IsJSON ?env) notFoundBody =
     Inr (Some \<lparr>errorName = ''SDK.ServerError'',
                 errorCode = ''ErrorClusterNotFound","message'',
                 errorMessage = ''R2","status''\<rparr>)\<close>
    by (simp add: isErrResponse_notFoundBody)
  have b: "fst (getASKState ?env sampleClient ''cls-123'' ''cn-beijing'' world0) = Inr []"
    by (simp add: getASKState_def ProcessCommonRequest_def sample_state_call
        readASKState_error_body [OF a])
  have probes: "\<forall>tr t. \<exists>st. readASKState ?env ''cls-123''
                      (received (snd (backend ?env tr t sampleClient
                         (stateRequest ''cls-123'' ''cn-beijing'')))) = Inr st
                    \<and> st \<noteq> ''running''"
    by (simp add: sample_state_call readASKState_error_body [OF a])
  obtain w1 where req: "CreateVirtualCluster_request ?env sampleVc world0 =
                          (Inr (sampleClient, sampleCfg, ''cls-123''), w1)"
    by (simp add: sample_CreateVirtualCluster_request)
  obtain r w2 where poll: "CreateVirtualCluster_poll ?env sampleClient ''cls-123'' ''cn-beijing''
                             (now w1 + 120 * Second) w1 = (r, w2)"
    by (cases "CreateVirtualCluster_poll ?env sampleClient ''cls-123'' ''cn-beijing''
                 (now w1 + 120 * Second) w1")
  from CreateVirtualCluster_poll_never_running [OF probes, of "now w1 + 120 * Second" w1] poll
  have r: "r = Some (Msg ''creating cluster(cls-123) timeout'')"
    by simp
  with CreateVirtualCluster_poll_run [OF poll] have late: "now w1 + 120 * Second \<le> now w2"
    by auto
  from req poll r have "CreateVirtualCluster ?env sampleVc world0
                          = (Some (Msg ''creating cluster(cls-123) timeout''), w2)"
    by (simp add: CreateVirtualCluster_def)
  with late a b show ?thesis
    unfolding notFoundEnv_def by simp
qed

lemma sample_readASKState_state:
  assumes "st = ''creating'' \<or> st = ''running'' \<or> st = ''deleting''"
  shows "readASKState (sampleEnv b) ''cls-123'' (Inr (stateBody st)) = Inr st"
  using assms
  by (auto simp: readASKState_def isErrResponse_def sampleIsJSON_def sampleEnv_def
      sampleUnmarshalObject_def stateBody_def)

subsection \<open>The deletion request\<close>

text \<open>
  C7, as stated, fails: \<open>sendDeletionRequest\<close> drops the response, so an error
  body in answer to the deletion is not seen. Here the deletion of \<open>cls-123\<close> is
  answered with an error body that the classifier takes for an error; the polling
  starts all the same (a state probe is sent at 2.2 s) and, as the probe reads
  \<open>deleting\<close>, \<open>DeleteVirtualCluster\<close> returns no error.
\<close>

theorem DeleteVirtualCluster_refused_delete_counterexample:
  \<open>isErrResponse (IsJSON refusedDeleteEnv) notFoundBody =
     Inr (Some \<lparr>errorName = ''SDK.ServerError'',
                 errorCode = ''ErrorClusterNotFound","message'',
                 errorMessage = ''R2","status''\<rparr>)
   \<and> DeleteVirtualCluster refusedDeleteEnv sampleVc world0 =
       (None,
        \<lparr>now = 2300000000,
         trace =
           [KubeGet SecretKind ''vc-manager'' ''aliyun-accesskey'',
            KubeGet ConfigMapKind ''vc-manager'' ''aliyun-ask-config'',
            HttpCall 0 sampleClient (listRequest ''cn-beijing'') 100000000 (Inr listBody),
            HttpCall 100000000 sampleClient (deletionRequest ''cls-123'' ''cn-beijing'')
              100000000 (Inr notFoundBody),
            HttpCall 2200000000 sampleClient (stateRequest ''cls-123'' ''cn-beijing'')
              100000000 (Inr (stateBody ''deleting''))]\<rparr>)\<close>
proof -
  let ?env = "sampleEnv (sampleBackend createdBody (Inr notFoundBody) (\<lambda>t. stateBody ''deleting''))"
  have a: \<open>isErrResponse (IsJSON ?env) notFoundBody =
     Inr (Some \<lparr>errorName = ''SDK.ServerError'',
                 errorCode = ''ErrorClusterNotFound","message'',
                 errorMessage = ''R2","status''\<rparr>)\<close>
    by (simp add: isErrResponse_notFoundBody)
  have b: "DeleteVirtualCluster ?env sampleVc world0 =
       (None,
        \<lparr>now = 2300000000,
         trace =
           [KubeGet SecretKind ''vc-manager'' ''aliyun-accesskey'',
            KubeGet ConfigMapKind ''vc-manager'' ''aliyun-ask-config'',
            HttpCall 0 sampleClient (listRequest ''cn-beijing'') 100000000 (Inr listBody),
            HttpCall 100000000 sampleClient (deletionRequest ''cls-123'' ''cn-beijing'')
              100000000 (Inr notFoundBody),
            HttpCall 2200000000 sampleClient (stateRequest ''cls-123'' ''cn-beijing'')
              100000000 (Inr (stateBody ''deleting''))]\<rparr>)"
    by (simp add: DeleteVirtualCluster_def sample_DeleteVirtualCluster_resolve
        sample_sendDeletionRequest DeleteVirtualCluster_poll.simps selectTimers_def
        getASKState_def ProcessCommonRequest_def sample_state_call sample_readASKState_state
        afterCall_def world0_def Second_def)
  from a b show ?thesis
    unfolding refusedDeleteEnv_def by simp
qed

text \<open>
  C7, amended. When the deletion request fails with a transport error,
  \<open>DeleteVirtualCluster\<close> returns that error and the request is the last thing it
  does: the polling never starts. When the request is answered, whatever the body
  of the answer, the result is that of the polling loop, started with a deadline
  100 seconds after the answer.
\<close>

theorem DeleteVirtualCluster_delete_request_outcome:
  assumes "DeleteVirtualCluster_resolve env vc w = (Inr (cli, askCfg, clusterID), w1)"
    and "backend env (trace w1) (now w1) cli (deletionRequest clusterID (regionID askCfg))
           = (took, answer)"
  shows "(\<forall>m. answer = Inl m \<longrightarrow>
            DeleteVirtualCluster env vc w =
              (Some (Transport m),
               afterCall w1 cli (deletionRequest clusterID (regionID askCfg)) took
                 (Inl (Transport m))))
       \<and> (\<forall>content. answer = Inr content \<longrightarrow>
            DeleteVirtualCluster env vc w =
              DeleteVirtualCluster_poll env cli (Name vc) clusterID (regionID askCfg)
                (now w1 + took + 100 * Second)
                (afterCall w1 cli (deletionRequest clusterID (regionID askCfg)) took
                   (Inr content)))"
  using assms(1) ProcessCommonRequest_answer [OF assms(2)]
  by (auto simp: DeleteVirtualCluster_def sendDeletionRequest_def afterCall_def)

theorem DeleteVirtualCluster_delete_request_outcome_witness:
  "DeleteVirtualCluster_resolve brokenDeleteEnv sampleVc world0 =
     (Inr (sampleClient, sampleCfg, ''cls-123''),
      afterCall
        (world0\<lparr>trace := trace world0 @ [KubeGet SecretKind ''vc-manager'' ''aliyun-accesskey'',
                                KubeGet ConfigMapKind ''vc-manager'' ''aliyun-ask-config'']\<rparr>)
        sampleClient (listRequest ''cn-beijing'') 100000000 (Inr listBody))
   \<and> DeleteVirtualCluster brokenDeleteEnv sampleVc world0 =
       (Some (Transport ''connection reset''),
        \<lparr>now = 200000000,
         trace =
           [KubeGet SecretKind ''vc-manager'' ''aliyun-accesskey'',
            KubeGet ConfigMapKind ''vc-manager'' ''aliyun-ask-config'',
            HttpCall 0 sampleClient (listRequest ''cn-beijing'') 100000000 (Inr listBody),
            HttpCall 100000000 sampleClient (deletionRequest ''cls-123'' ''cn-beijing'')
              100000000 (Inl (Transport ''connection reset''))]\<rparr>)"
proof -
  let ?w1 = "afterCall
        (world0\<lparr>trace := trace world0 @ [KubeGet SecretKind ''vc-manager'' ''aliyun-accesskey'',
                                KubeGet ConfigMapKind ''vc-manager'' ''aliyun-ask-config'']\<rparr>)
        sampleClient (listRequest ''cn-beijing'') 100000000 (Inr listBody)"
  have h1: "DeleteVirtualCluster_resolve brokenDeleteEnv sampleVc world0 =
              (Inr (sampleClient, sampleCfg, ''cls-123''), ?w1)"
    by (simp add: brokenDeleteEnv_def sample_DeleteVirtualCluster_resolve)
  have h2: "backend brokenDeleteEnv (trace ?w1) (now ?w1) sampleClient
              (deletionRequest ''cls-123'' (regionID sampleCfg))
              = (100000000, Inl ''connection reset'')"
    by (simp add: brokenDeleteEnv_def sample_deletion_call)
  from DeleteVirtualCluster_delete_request_outcome [OF h1 h2]
  have "DeleteVirtualCluster brokenDeleteEnv sampleVc world0 =
          (Some (Transport ''connection reset''),
           afterCall ?w1 sampleClient (deletionRequest ''cls-123'' (regionID sampleCfg))
             100000000 (Inl (Transport ''connection reset'')))"
    by simp
  with h1 show ?thesis
    by (simp add: afterCall_def world0_def)
qed

subsection \<open>What a run adds to the trace\<close>

lemma ProcessCommonRequest_trace:
  assumes "ProcessCommonRequest env cli req w = (res, w')"
  shows "\<exists>sent took. trace w' = trace w @ [HttpCall sent cli req took res]"
  using assms
  by (auto simp: ProcessCommonRequest_def afterCall_def split: prod.splits)

lemma getAliyunAKPair_trace:
  assumes "getAliyunAKPair env w = (res, w')"
  shows "\<exists>k ns name. trace w' = trace w @ [KubeGet k ns name]"
  using assms
  by (auto simp: getAliyunAKPair_def mpaGet_def Let_def split: prod.splits)

lemma getASKConfigs_trace:
  assumes "getASKConfigs env w = (res, w')"
  shows "\<exists>k ns name. trace w' = trace w @ [KubeGet k ns name]"
  using assms
  by (auto simp: getASKConfigs_def mpaGet_def Let_def split: prod.splits option.splits)

lemma getClusterIDByName_trace:
  assumes "getClusterIDByName env cli clusterName region w = (res, w')"
  shows "\<exists>sent took answer. trace w' = trace w @ [HttpCall sent cli (listRequest region) took answer]"
proof -
  obtain r w1 where p: "ProcessCommonRequest env cli (listRequest region) w = (r, w1)"
    by (cases "ProcessCommonRequest env cli (listRequest region) w")
  with assms have "w' = w1"
    by (auto simp: getClusterIDByName_def split: sum.splits)
  with ProcessCommonRequest_trace [OF p] show ?thesis by blast
qed

lemma listRequest_Method [simp]: "Method (listRequest region) = ''GET''"
  by (simp add: listRequest_def NewCommonRequest_def)

lemma creationRequest_Method [simp]: "Method (creationRequest name cfg) = ''POST''"
  by (simp add: creationRequest_def NewCommonRequest_def)

lemma stateRequest_Method [simp]: "Method (stateRequest cid region) = ''GET''"
  by (simp add: stateRequest_def NewCommonRequest_def)

lemma kubeConfigRequest_Method [simp]: "Method (kubeConfigRequest cid region) = ''GET''"
  by (simp add: kubeConfigRequest_def NewCommonRequest_def)

lemma sendCreationRequest_trace:
  assumes "sendCreationRequest env cli clusterName askCfg w = (res, w')"
  shows "\<exists>evs. trace w' = trace w @ evs \<and> (\<forall>ev\<in>set evs. \<not> isCreate ev \<and> \<not> isDeletion ev)"
proof -
  let ?req = "creationRequest clusterName askCfg"
  obtain r w1 where p: "ProcessCommonRequest env cli ?req w = (r, w1)"
    by (cases "ProcessCommonRequest env cli ?req w")
  from ProcessCommonRequest_trace [OF p] obtain sent took where
    t1: "trace w1 = trace w @ [HttpCall sent cli ?req took r]"
    by blast
  obtain r2 w2 where g: "getClusterIDByName env cli clusterName (regionID askCfg) w1 = (r2, w2)"
    by (cases "getClusterIDByName env cli clusterName (regionID askCfg) w1")
  from getClusterIDByName_trace [OF g] obtain sent2 took2 answer2 where
    t2: "trace w2 = trace w1 @ [HttpCall sent2 cli (listRequest (regionID askCfg)) took2 answer2]"
    by blast
  from assms p g have "w' = w1 \<or> w' = w2"
    by (auto simp: sendCreationRequest_def split: sum.splits option.splits if_splits)
  then show ?thesis
  proof
    assume "w' = w1"
    with t1 have "trace w' = trace w @ [HttpCall sent cli ?req took r]
        \<and> (\<forall>ev\<in>set [HttpCall sent cli ?req took r]. \<not> isCreate ev \<and> \<not> isDeletion ev)"
      by simp
    then show ?thesis by blast
  next
    assume "w' = w2"
    with t1 t2 have "trace w' = trace w @ [HttpCall sent cli ?req took r,
                       HttpCall sent2 cli (listRequest (regionID askCfg)) took2 answer2]
        \<and> (\<forall>ev\<in>set [HttpCall sent cli ?req took r,
                       HttpCall sent2 cli (listRequest (regionID askCfg)) took2 answer2].
              \<not> isCreate ev \<and> \<not> isDeletion ev)"
      by simp
    then show ?thesis by blast
  qed
qed

lemma CreateVirtualCluster_request_trace:
  assumes "CreateVirtualCluster_request env vc w = (res, w')"
  shows "\<exists>evs. trace w' = trace w @ evs \<and> (\<forall>ev\<in>set evs. \<not> isCreate ev \<and> \<not> isDeletion ev)"
proof -
  obtain keys w1 where a: "getAliyunAKPair env w = (keys, w1)"
    by (cases "getAliyunAKPair env w")
  obtain cfg w2 where c: "getASKConfigs env w1 = (cfg, w2)"
    by (cases "getASKConfigs env w1")
  from getAliyunAKPair_trace [OF a] obtain k1 ns1 n1 where
    t1: "trace w1 = trace w @ [KubeGet k1 ns1 n1]" by blast
  from getASKConfigs_trace [OF c] obtain k2 ns2 n2 where
    t2: "trace w2 = trace w1 @ [KubeGet k2 ns2 n2]" by blast
  have early: "w' = w1 \<or> w' = w2 \<Longrightarrow> ?thesis"
  proof -
    assume "w' = w1 \<or> w' = w2"
    with t1 t2 have "(trace w' = trace w @ [KubeGet k1 ns1 n1]
          \<and> (\<forall>ev\<in>set [KubeGet k1 ns1 n1]. \<not> isCreate ev \<and> \<not> isDeletion ev))
        \<or> (trace w' = trace w @ [KubeGet k1 ns1 n1, KubeGet k2 ns2 n2]
          \<and> (\<forall>ev\<in>set [KubeGet k1 ns1 n1, KubeGet k2 ns2 n2]. \<not> isCreate ev \<and> \<not> isDeletion ev))"
      by auto
    then show ?thesis by blast
  qed
  from assms a c have "w' = w1 \<or> w' = w2
      \<or> (\<exists>cli askCfg r. sendCreationRequest env cli (Name vc) askCfg w2 = (r, w'))"
    by (auto simp: CreateVirtualCluster_request_def split: prod.splits option.splits sum.splits)
  then consider "w' = w1 \<or> w' = w2"
    | cli askCfg r where "sendCreationRequest env cli (Name vc) askCfg w2 = (r, w')"
    by blast
  then show ?thesis
  proof cases
    case 1
    then show ?thesis by (rule early)
  next
    case 2
    from sendCreationRequest_trace [OF 2] obtain evs where
      "trace w' = trace w2 @ evs" "\<forall>ev\<in>set evs. \<not> isCreate ev \<and> \<not> isDeletion ev"
      by blast
    with t1 t2 have "trace w' = trace w @ (KubeGet k1 ns1 n1 # KubeGet k2 ns2 n2 # evs)
        \<and> (\<forall>ev\<in>set (KubeGet k1 ns1 n1 # KubeGet k2 ns2 n2 # evs).
              \<not> isCreate ev \<and> \<not> isDeletion ev)"
      by simp
    then show ?thesis by blast
  qed
qed

lemma pollsEvery_quiet:
  assumes "pollsEvery d cli (stateRequest cid region) t evs"
  shows "\<forall>ev\<in>set evs. \<not> isCreate ev \<and> \<not> isDeletion ev"
  using assms
  by (induction d cli "stateRequest cid region" t evs rule: pollsEvery.induct) auto

lemma newEvents_append:
  assumes "trace w' = trace w @ evs"
  shows "newEvents w w' = evs"
  using assms by (simp add: newEvents_def)

subsection \<open>The schedule of the creation polling\<close>

text \<open>
  C5. Once the creation request has returned, at \<open>now w1\<close>, the loop of
  \<open>CreateVirtualCluster\<close> sends nothing but state probes, the first one 10 seconds
  later and each further one 10 seconds after the one before it returned, against
  a deadline 120 seconds after \<open>now w1\<close>. If the loop ends with the timeout error,
  the clock has reached that deadline and \<open>CreateVirtualCluster\<close> returns the
  error right there, in the world the loop left. If no probe can read \<open>running\<close>
  (and none fails), the loop ends with the timeout error. From its start to the end
  of the loop \<open>CreateVirtualCluster\<close> sends no deletion.
\<close>

theorem CreateVirtualCluster_polling_schedule:
  assumes "CreateVirtualCluster_request env vc w = (Inr (cli, askCfg, clsID), w1)"
    and "CreateVirtualCluster_poll env cli clsID (regionID askCfg) (now w1 + 120 * Second) w1
           = (r, w2)"
  shows "(\<exists>polls. trace w2 = trace w1 @ polls
            \<and> pollsEvery (10 * Second) cli (stateRequest clsID (regionID askCfg)) (now w1) polls)
       \<and> (r = Some (Msg (''creating cluster('' @ clsID @ '') timeout'')) \<longrightarrow>
            now w1 + 120 * Second \<le> now w2 \<and> CreateVirtualCluster env vc w = (r, w2))
       \<and> ((\<forall>tr t. \<exists>st. readASKState env clsID
                      (received (snd (backend env tr t cli (stateRequest clsID (regionID askCfg)))))
                        = Inr st \<and> st \<noteq> ''running'') \<longrightarrow>
            r = Some (Msg (''creating cluster('' @ clsID @ '') timeout'')))
       \<and> (\<forall>ev\<in>set (newEvents w w2). \<not> isDeletion ev)"
proof -
  from CreateVirtualCluster_poll_run [OF assms(2)] obtain polls where
    p: "trace w2 = trace w1 @ polls"
       "pollsEvery (10 * Second) cli (stateRequest clsID (regionID askCfg)) (now w1) polls"
       "r = Some (Msg (''creating cluster('' @ clsID @ '') timeout''))
          \<longrightarrow> now w1 + 120 * Second \<le> now w2"
    by blast
  from CreateVirtualCluster_request_trace [OF assms(1)] obtain evs where
    e: "trace w1 = trace w @ evs" "\<forall>ev\<in>set evs. \<not> isCreate ev \<and> \<not> isDeletion ev"
    by blast
  have a: "\<exists>polls. trace w2 = trace w1 @ polls
            \<and> pollsEvery (10 * Second) cli (stateRequest clsID (regionID askCfg)) (now w1) polls"
    using p by blast
  have b: "r = Some (Msg (''creating cluster('' @ clsID @ '') timeout'')) \<longrightarrow>
            now w1 + 120 * Second \<le> now w2 \<and> CreateVirtualCluster env vc w = (r, w2)"
    using p(3) assms by (auto simp: CreateVirtualCluster_def)
  have c: "(\<forall>tr t. \<exists>st. readASKState env clsID
                      (received (snd (backend env tr t cli (stateRequest clsID (regionID askCfg)))))
                        = Inr st \<and> st \<noteq> ''running'') \<longrightarrow>
            r = Some (Msg (''creating cluster('' @ clsID @ '') timeout''))"
  proof
    assume never: "\<forall>tr t. \<exists>st. readASKState env clsID
                      (received (snd (backend env tr t cli (stateRequest clsID (regionID askCfg)))))
                        = Inr st \<and> st \<noteq> ''running''"
    from CreateVirtualCluster_poll_never_running [OF never, of "now w1 + 120 * Second" w1] assms(2)
    show "r = Some (Msg (''creating cluster('' @ clsID @ '') timeout''))"
      by simp
  qed
  have "trace w2 = trace w @ (evs @ polls)"
    using p(1) e(1) by simp
  then have "newEvents w w2 = evs @ polls"
    by (rule newEvents_append)
  with e(2) pollsEvery_quiet [OF p(2)] have d: "\<forall>ev\<in>set (newEvents w w2). \<not> isDeletion ev"
    by auto
  from a b c d show ?thesis by blast
qed

theorem CreateVirtualCluster_polling_schedule_witness:
  "CreateVirtualCluster_request creatingEnv sampleVc world0 =
     (Inr (sampleClient, sampleCfg, ''cls-123''),
      afterCall
        (world0\<lparr>trace := trace world0 @ [KubeGet SecretKind ''vc-manager'' ''aliyun-accesskey'',
                                KubeGet ConfigMapKind ''vc-manager'' ''aliyun-ask-config'']\<rparr>)
        sampleClient (creationRequest ''tenant-a'' sampleCfg) 100000000 (Inr createdBody))
   \<and> fst (CreateVirtualCluster creatingEnv sampleVc world0)
       = Some (Msg ''creating cluster(cls-123) timeout'')
   \<and> 100000000 + 120 * Second \<le> now (snd (CreateVirtualCluster creatingEnv sampleVc world0))"
proof -
  let ?w1 = "afterCall
        (world0\<lparr>trace := trace world0 @ [KubeGet SecretKind ''vc-manager'' ''aliyun-accesskey'',
                                KubeGet ConfigMapKind ''vc-manager'' ''aliyun-ask-config'']\<rparr>)
        sampleClient (creationRequest ''tenant-a'' sampleCfg) 100000000 (Inr createdBody)"
  let ?poll = "CreateVirtualCluster_poll creatingEnv sampleClient ''cls-123'' (regionID sampleCfg)
                 (now ?w1 + 120 * Second) ?w1"
  have h1: "CreateVirtualCluster_request creatingEnv sampleVc world0 =
              (Inr (sampleClient, sampleCfg, ''cls-123''), ?w1)"
    by (simp add: creatingEnv_def sample_CreateVirtualCluster_request)
  have h2: "?poll = (fst ?poll, snd ?poll)"
    by simp
  have never: "\<forall>tr t. \<exists>st. readASKState creatingEnv ''cls-123''
                  (received (snd (backend creatingEnv tr t sampleClient
                     (stateRequest ''cls-123'' (regionID sampleCfg))))) = Inr st
                \<and> st \<noteq> ''running''"
    by (simp add: creatingEnv_def sample_state_call sample_readASKState_state)
  have start: "now ?w1 = 100000000"
    by (simp add: afterCall_def world0_def)
  from CreateVirtualCluster_polling_schedule [OF h1 h2] never
  have r: "fst ?poll = Some (Msg ''creating cluster(cls-123) timeout'')"
    by simp
  with CreateVirtualCluster_polling_schedule [OF h1 h2]
  have "now ?w1 + 120 * Second \<le> now (snd ?poll)"
    and "CreateVirtualCluster creatingEnv sampleVc world0 = (fst ?poll, snd ?poll)"
    by simp_all
  with r h1 start show ?thesis
    by simp
qed

subsection \<open>Objects are created after the cluster runs\<close>

lemma mpaCreate_trace:
  assumes "mpaCreate env obj w = (res, w')"
  shows "trace w' = trace w @ [KubeCreate obj res]"
  using assms by (auto simp: mpaCreate_def Let_def)

lemma getASKKubeConfig_trace:
  assumes "getASKKubeConfig env cli cid region w = (res, w')"
  shows "\<exists>sent took answer.
           trace w' = trace w @ [HttpCall sent cli (kubeConfigRequest cid region) took answer]"
proof -
  obtain r w1 where p: "ProcessCommonRequest env cli (kubeConfigRequest cid region) w = (r, w1)"
    by (cases "ProcessCommonRequest env cli (kubeConfigRequest cid region) w")
  with assms have "w' = w1"
    by (auto simp: getASKKubeConfig_def split: sum.splits option.splits)
  with ProcessCommonRequest_trace [OF p] show ?thesis by blast
qed

lemma CreateVirtualCluster_publish_trace:
  assumes "CreateVirtualCluster_publish env vc cli askCfg clsID w = (res, w')"
  shows "\<exists>evs. trace w' = trace w @ evs"
proof -
  obtain r1 w1 where c1: "mpaCreate env (NamespaceObj (ToClusterKey env vc)) w = (r1, w1)"
    by (cases "mpaCreate env (NamespaceObj (ToClusterKey env vc)) w")
  obtain r2 w2 where k: "getASKKubeConfig env cli clsID (regionID askCfg) w1 = (r2, w2)"
    by (cases "getASKKubeConfig env cli clsID (regionID askCfg) w1")
  have t1: "trace w1 = trace w @ [KubeCreate (NamespaceObj (ToClusterKey env vc)) r1]"
    by (rule mpaCreate_trace [OF c1])
  from getASKKubeConfig_trace [OF k] obtain ev where t2: "trace w2 = trace w1 @ [ev]"
    by blast
  from assms c1 k have "w' = w1 \<or> w' = w2
      \<or> (\<exists>obj r3. mpaCreate env obj w2 = (r3, w'))"
    by (auto simp: CreateVirtualCluster_publish_def Let_def
             split: prod.splits sum.splits if_splits)
  then consider "w' = w1" | "w' = w2" | obj r3 where "mpaCreate env obj w2 = (r3, w')"
    by blast
  then show ?thesis
  proof cases
    case 1
    with t1 show ?thesis by blast
  next
    case 2
    with t1 t2 have "trace w' = trace w @ [KubeCreate (NamespaceObj (ToClusterKey env vc)) r1, ev]"
      by simp
    then show ?thesis by blast
  next
    case 3
    from mpaCreate_trace [OF 3] t1 t2
    have "trace w' = trace w @ [KubeCreate (NamespaceObj (ToClusterKey env vc)) r1, ev,
                                 KubeCreate obj r3]"
      by simp
    then show ?thesis by blast
  qed
qed

lemma first_hit_after_prefix:
  assumes "xs @ ys = pre @ ev # post" and "\<forall>x\<in>set xs. \<not> P x" and "P ev"
  shows "set xs \<subseteq> set pre"
proof -
  from assms(1) consider us where "xs = pre @ us" "us @ ys = ev # post"
    | us where "xs @ us = pre" "ys = us @ ev # post"
    by (auto simp: append_eq_append_conv2)
  then show ?thesis
  proof cases
    case 1
    show ?thesis
    proof (cases us)
      case Nil
      with 1 show ?thesis by simp
    next
      case (Cons u us')
      with 1 have "ev \<in> set xs" by auto
      with assms(2,3) show ?thesis by blast
    qed
  next
    case 2
    then show ?thesis by auto
  qed
qed

text \<open>
  C4. In every run of \<open>CreateVirtualCluster\<close>, an object (the namespace or the
  admin kubeconfig secret) is created only after a probe of the state of the
  cluster that the request returned has read \<open>running\<close>. If the request phase
  fails, or the polling ends with an error (the timeout is one), the run returns an
  error and creates nothing.
\<close>

theorem CreateVirtualCluster_creates_after_running:
  assumes "CreateVirtualCluster env vc w = (res, w')"
  shows "trace w' = trace w @ newEvents w w'
       \<and> (\<forall>pre ev post. newEvents w w' = pre @ ev # post \<and> isCreate ev \<longrightarrow>
            (\<exists>cli askCfg clsID w1.
               CreateVirtualCluster_request env vc w = (Inr (cli, askCfg, clsID), w1)
               \<and> (\<exists>p\<in>set pre. probeReturned env cli clsID (regionID askCfg) p (Inr ''running''))))
       \<and> ((\<exists>err w1. CreateVirtualCluster_request env vc w = (Inl err, w1))
          \<or> (\<exists>cli askCfg clsID w1 err w2.
                CreateVirtualCluster_request env vc w = (Inr (cli, askCfg, clsID), w1)
                \<and> CreateVirtualCluster_poll env cli clsID (regionID askCfg)
                      (now w1 + 120 * Second) w1 = (Some err, w2))
          \<longrightarrow> res \<noteq> None \<and> (\<forall>ev\<in>set (newEvents w w'). \<not> isCreate ev))"
proof -
  obtain rq w1 where req: "CreateVirtualCluster_request env vc w = (rq, w1)"
    by (cases "CreateVirtualCluster_request env vc w")
  from CreateVirtualCluster_request_trace [OF req] obtain evs where
    e: "trace w1 = trace w @ evs" "\<forall>ev\<in>set evs. \<not> isCreate ev \<and> \<not> isDeletion ev"
    by blast
  show ?thesis
  proof (cases rq)
    case (Inl err)
    with req assms have out: "res = Some err" "w' = w1"
      by (simp_all add: CreateVirtualCluster_def)
    with e have n: "newEvents w w' = evs"
      by (simp add: newEvents_append)
    have none: "\<forall>ev\<in>set (newEvents w w'). \<not> isCreate ev"
      using n e(2) by simp
    have a: "trace w' = trace w @ newEvents w w'"
      using n out e by simp
    have b: "\<forall>pre ev post. newEvents w w' = pre @ ev # post \<and> isCreate ev \<longrightarrow>
          (\<exists>cli askCfg clsID w1.
             CreateVirtualCluster_request env vc w = (Inr (cli, askCfg, clsID), w1)
             \<and> (\<exists>p\<in>set pre. probeReturned env cli clsID (regionID askCfg) p (Inr ''running'')))"
      using none by auto
    have c: "res \<noteq> None \<and> (\<forall>ev\<in>set (newEvents w w'). \<not> isCreate ev)"
      using none out by simp
    from a b c show ?thesis by blast
  next
    case (Inr triple)
    obtain cli askCfg clsID where triple: "triple = (cli, askCfg, clsID)"
      by (cases triple)
    obtain r w2 where poll: "CreateVirtualCluster_poll env cli clsID (regionID askCfg)
                               (now w1 + 120 * Second) w1 = (r, w2)"
      by (cases "CreateVirtualCluster_poll env cli clsID (regionID askCfg)
                   (now w1 + 120 * Second) w1")
    from CreateVirtualCluster_poll_run [OF poll] obtain polls where
      p: "trace w2 = trace w1 @ polls"
         "pollsEvery (10 * Second) cli (stateRequest clsID (regionID askCfg)) (now w1) polls"
         "r = None \<longrightarrow> (\<exists>p\<in>set polls. probeReturned env cli clsID (regionID askCfg) p
                                         (Inr ''running''))"
      by blast
    have quiet: "\<forall>ev\<in>set (evs @ polls). \<not> isCreate ev"
      using e(2) pollsEvery_quiet [OF p(2)] by auto
    have req': "CreateVirtualCluster_request env vc w = (Inr (cli, askCfg, clsID), w1)"
      using req Inr triple by simp
    show ?thesis
    proof (cases r)
      case (Some err)
      with req' poll assms have out: "res = Some err" "w' = w2"
        by (simp_all add: CreateVirtualCluster_def)
      with e p have n: "newEvents w w' = evs @ polls"
        by (simp add: newEvents_append)
      have none: "\<forall>ev\<in>set (newEvents w w'). \<not> isCreate ev"
        using n quiet by simp
      have a: "trace w' = trace w @ newEvents w w'"
        using n out e p by simp
      have b: "\<forall>pre ev post. newEvents w w' = pre @ ev # post \<and> isCreate ev \<longrightarrow>
            (\<exists>cli askCfg clsID w1.
               CreateVirtualCluster_request env vc w = (Inr (cli, askCfg, clsID), w1)
               \<and> (\<exists>p\<in>set pre. probeReturned env cli clsID (regionID askCfg) p (Inr ''running'')))"
        using none by auto
      have c: "res \<noteq> None \<and> (\<forall>ev\<in>set (newEvents w w'). \<not> isCreate ev)"
        using none out by simp
      from a b c show ?thesis by blast
    next
      case None
      with req' poll assms
      have pub: "CreateVirtualCluster_publish env vc cli askCfg clsID w2 = (res, w')"
        by (simp add: CreateVirtualCluster_def)
      from CreateVirtualCluster_publish_trace [OF pub] obtain evs3 where
        t3: "trace w' = trace w2 @ evs3"
        by blast
      with e p have n: "newEvents w w' = (evs @ polls) @ evs3"
        by (simp add: newEvents_append)
      from None p(3) obtain pr where
        pr: "pr \<in> set polls" "probeReturned env cli clsID (regionID askCfg) pr (Inr ''running'')"
        by blast
      have a: "trace w' = trace w @ newEvents w w'"
        using n t3 e p by simp
      have b: "\<forall>pre ev post. newEvents w w' = pre @ ev # post \<and> isCreate ev \<longrightarrow>
            (\<exists>cli askCfg clsID w1.
               CreateVirtualCluster_request env vc w = (Inr (cli, askCfg, clsID), w1)
               \<and> (\<exists>p\<in>set pre. probeReturned env cli clsID (regionID askCfg) p (Inr ''running'')))"
      proof (intro allI impI)
        fix pre ev post
        assume h: "newEvents w w' = pre @ ev # post \<and> isCreate ev"
        with n have "(evs @ polls) @ evs3 = pre @ ev # post" "isCreate ev"
          by simp_all
        from first_hit_after_prefix [OF this(1) quiet this(2)]
        have "set (evs @ polls) \<subseteq> set pre" .
        with pr have "pr \<in> set pre" by auto
        with pr(2) req' show "\<exists>cli askCfg clsID w1.
               CreateVirtualCluster_request env vc w = (Inr (cli, askCfg, clsID), w1)
               \<and> (\<exists>p\<in>set pre. probeReturned env cli clsID (regionID askCfg) p (Inr ''running''))"
          by blast
      qed
      have c: "\<not> ((\<exists>err w1. CreateVirtualCluster_request env vc w = (Inl err, w1))
          \<or> (\<exists>cli askCfg clsID w1 err w2.
                CreateVirtualCluster_request env vc w = (Inr (cli, askCfg, clsID), w1)
                \<and> CreateVirtualCluster_poll env cli clsID (regionID askCfg)
                      (now w1 + 120 * Second) w1 = (Some err, w2)))"
        using req' poll None by auto
      from a b c show ?thesis by blast
    qed
  qed
qed

lemma happy_state_call:
  "backend happyEnv tr t cli (stateRequest ''cls-123'' region) =
     (100000000, Inr (if t < 25000000000 then stateBody ''creating'' else stateBody ''running''))"
  by (simp add: happyEnv_def sample_state_call Second_def)

lemma happy_getASKState:
  "getASKState happyEnv cli ''cls-123'' region w =
     (Inr (if now w < 25000000000 then ''creating'' else ''running''),
      afterCall w cli (stateRequest ''cls-123'' region) 100000000
        (Inr (if now w < 25000000000 then stateBody ''creating'' else stateBody ''running'')))"
proof -
  have "getASKState happyEnv cli ''cls-123'' region w =
     (readASKState happyEnv ''cls-123''
        (received (Inr (if now w < 25000000000 then stateBody ''creating''
                        else stateBody ''running''))),
      afterCall w cli (stateRequest ''cls-123'' region) 100000000
        (received (Inr (if now w < 25000000000 then stateBody ''creating''
                        else stateBody ''running''))))"
    by (rule getASKState_answer [OF happy_state_call])
  then show ?thesis
    by (simp add: happyEnv_def sample_readASKState_state)
qed

lemma sample_mpaCreate:
  "mpaCreate (sampleEnv b) obj w = (None, w\<lparr>trace := trace w @ [KubeCreate obj None]\<rparr>)"
  by (simp add: mpaCreate_def sampleEnv_def)

lemma sample_getASKKubeConfig:
  "getASKKubeConfig (sampleEnv (sampleBackend p d s)) cli ''cls-123'' region w =
     (Inr ''kubeconfig-of-cls-123'',
      afterCall w cli (kubeConfigRequest ''cls-123'' region) 100000000 (Inr kubeconfigBody))"
  by (simp add: getASKKubeConfig_def ProcessCommonRequest_def sample_kubeconfig_call)
     (simp add: sampleEnv_def sampleUnmarshalStringMap_def kubeconfigBody_def createdBody_def)

lemma sample_names [simp]:
  "ToClusterKey (sampleEnv b) sampleVc = ''default-tenant-a''"
  "AdminSecretName (sampleEnv b) = ''admin-kubeconfig''"
  by (simp_all add: sampleEnv_def sampleVc_def)

lemma happy_publish:
  "CreateVirtualCluster_publish happyEnv sampleVc sampleClient sampleCfg ''cls-123'' w =
     (None,
      w\<lparr>now := now w + 100000000,
        trace := trace w @
          [KubeCreate (NamespaceObj ''default-tenant-a'') None,
           HttpCall (now w) sampleClient (kubeConfigRequest ''cls-123'' ''cn-beijing'') 100000000
             (Inr kubeconfigBody),
           KubeCreate (SecretObj ''admin-kubeconfig'' ''default-tenant-a''
                         ''kubeconfig-of-cls-123'') None]\<rparr>)"
  unfolding happyEnv_def
  by (simp add: CreateVirtualCluster_publish_def sample_mpaCreate sample_getASKKubeConfig
      afterCall_def KubeconfigToSecret_def IsAlreadyExists_def)

lemma happy_run:
  "CreateVirtualCluster happyEnv sampleVc world0 =
     (None,
      \<lparr>now = 30500000000,
       trace =
         [KubeGet SecretKind ''vc-manager'' ''aliyun-accesskey'',
          KubeGet ConfigMapKind ''vc-manager'' ''aliyun-ask-config'',
          HttpCall 0 sampleClient (creationRequest ''tenant-a'' sampleCfg) 100000000
            (Inr createdBody),
          HttpCall 10100000000 sampleClient (stateRequest ''cls-123'' ''cn-beijing'') 100000000
            (Inr (stateBody ''creating'')),
          HttpCall 20200000000 sampleClient (stateRequest ''cls-123'' ''cn-beijing'') 100000000
            (Inr (stateBody ''creating'')),
          HttpCall 30300000000 sampleClient (stateRequest ''cls-123'' ''cn-beijing'') 100000000
            (Inr (stateBody ''running'')),
          KubeCreate (NamespaceObj ''default-tenant-a'') None,
          HttpCall 30400000000 sampleClient (kubeConfigRequest ''cls-123'' ''cn-beijing'')
            100000000 (Inr kubeconfigBody),
          KubeCreate (SecretObj ''admin-kubeconfig'' ''default-tenant-a''
                        ''kubeconfig-of-cls-123'') None]\<rparr>)"
proof -
  have req: "CreateVirtualCluster_request happyEnv sampleVc world0 =
     (Inr (sampleClient, sampleCfg, ''cls-123''),
      afterCall
        (world0\<lparr>trace := trace world0 @ [KubeGet SecretKind ''vc-manager'' ''aliyun-accesskey'',
                                KubeGet ConfigMapKind ''vc-manager'' ''aliyun-ask-config'']\<rparr>)
        sampleClient (creationRequest ''tenant-a'' sampleCfg) 100000000 (Inr createdBody))"
    by (simp add: happyEnv_def sample_CreateVirtualCluster_request)
  show ?thesis
    unfolding CreateVirtualCluster_def req
    by (simp add: CreateVirtualCluster_poll.simps selectTimers_def
        happy_getASKState happy_publish afterCall_def world0_def Second_def)
qed

theorem CreateVirtualCluster_creates_after_running_witness:
  "fst (CreateVirtualCluster happyEnv sampleVc world0) = None
   \<and> newEvents world0 (snd (CreateVirtualCluster happyEnv sampleVc world0)) =
       [KubeGet SecretKind ''vc-manager'' ''aliyun-accesskey'',
        KubeGet ConfigMapKind ''vc-manager'' ''aliyun-ask-config'',
        HttpCall 0 sampleClient (creationRequest ''tenant-a'' sampleCfg) 100000000
          (Inr createdBody),
        HttpCall 10100000000 sampleClient (stateRequest ''cls-123'' ''cn-beijing'') 100000000
          (Inr (stateBody ''creating'')),
        HttpCall 20200000000 sampleClient (stateRequest ''cls-123'' ''cn-beijing'') 100000000
          (Inr (stateBody ''creating'')),
        HttpCall 30300000000 sampleClient (stateRequest ''cls-123'' ''cn-beijing'') 100000000
          (Inr (stateBody ''running'')),
        KubeCreate (NamespaceObj ''default-tenant-a'') None,
        HttpCall 30400000000 sampleClient (kubeConfigRequest ''cls-123'' ''cn-beijing'')
          100000000 (Inr kubeconfigBody)]
       @ KubeCreate (SecretObj ''admin-kubeconfig'' ''default-tenant-a''
                       ''kubeconfig-of-cls-123'') None # []
   \<and> isCreate (KubeCreate (SecretObj ''admin-kubeconfig'' ''default-tenant-a''
                              ''kubeconfig-of-cls-123'') None)
   \<and> (\<exists>p. p \<in> set
         [KubeGet SecretKind ''vc-manager'' ''aliyun-accesskey'',
          KubeGet ConfigMapKind ''vc-manager'' ''aliyun-ask-config'',
          HttpCall 0 sampleClient (creationRequest ''tenant-a'' sampleCfg) 100000000
            (Inr createdBody),
          HttpCall 10100000000 sampleClient (stateRequest ''cls-123'' ''cn-beijing'') 100000000
            (Inr (stateBody ''creating'')),
          HttpCall 20200000000 sampleClient (stateRequest ''cls-123'' ''cn-beijing'') 100000000
            (Inr (stateBody ''creating'')),
          HttpCall 30300000000 sampleClient (stateRequest ''cls-123'' ''cn-beijing'') 100000000
            (Inr (stateBody ''running'')),
          KubeCreate (NamespaceObj ''default-tenant-a'') None,
          HttpCall 30400000000 sampleClient (kubeConfigRequest ''cls-123'' ''cn-beijing'')
            100000000 (Inr kubeconfigBody)]
       \<and> probeReturned happyEnv sampleClient ''cls-123'' ''cn-beijing'' p (Inr ''running''))"
proof -
  let ?run = "CreateVirtualCluster happyEnv sampleVc world0"
  let ?pre = "[KubeGet SecretKind ''vc-manager'' ''aliyun-accesskey'',
          KubeGet ConfigMapKind ''vc-manager'' ''aliyun-ask-config'',
          HttpCall 0 sampleClient (creationRequest ''tenant-a'' sampleCfg) 100000000
            (Inr createdBody),
          HttpCall 10100000000 sampleClient (stateRequest ''cls-123'' ''cn-beijing'') 100000000
            (Inr (stateBody ''creating'')),
          HttpCall 20200000000 sampleClient (stateRequest ''cls-123'' ''cn-beijing'') 100000000
            (Inr (stateBody ''creating'')),
          HttpCall 30300000000 sampleClient (stateRequest ''cls-123'' ''cn-beijing'') 100000000
            (Inr (stateBody ''running'')),
          KubeCreate (NamespaceObj ''default-tenant-a'') None,
          HttpCall 30400000000 sampleClient (kubeConfigRequest ''cls-123'' ''cn-beijing'')
            100000000 (Inr kubeconfigBody)]"
  let ?ev = "KubeCreate (SecretObj ''admin-kubeconfig'' ''default-tenant-a''
                           ''kubeconfig-of-cls-123'') None"
  have run: "?run = (fst ?run, snd ?run)"
    by simp
  have res: "fst ?run = None"
    by (simp add: happy_run)
  have new: "newEvents world0 (snd ?run) = ?pre @ ?ev # []"
    unfolding happy_run by (simp add: newEvents_def world0_def)
  have cr: "isCreate ?ev"
    by simp
  have req: "fst (CreateVirtualCluster_request happyEnv sampleVc world0)
               = Inr (sampleClient, sampleCfg, ''cls-123'')"
    by (simp add: happyEnv_def sample_CreateVirtualCluster_request)
  from CreateVirtualCluster_creates_after_running [OF run] new cr
  have "\<exists>cli askCfg clsID w1.
          CreateVirtualCluster_request happyEnv sampleVc world0 = (Inr (cli, askCfg, clsID), w1)
          \<and> (\<exists>p\<in>set ?pre. probeReturned happyEnv cli clsID (regionID askCfg) p (Inr ''running''))"
    by blast
  with req have "\<exists>p\<in>set ?pre. probeReturned happyEnv sampleClient ''cls-123'' ''cn-beijing'' p
                                 (Inr ''running'')"
    by auto
  then have "\<exists>p. p \<in> set ?pre
          \<and> probeReturned happyEnv sampleClient ''cls-123'' ''cn-beijing'' p (Inr ''running'')"
    by blast
  with res new cr show ?thesis
    by blast
qed

end
